theory Spec2Isabelle
  imports Main "HOL-Library.Word" "HOL-Library.AList"
begin

unbundle bit_operations_syntax

section \<open>Common types\<close>

text \<open>
  A Go \<open>error\<close> value is represented by its message (what \<open>e.Error()\<close> returns);
  \<open>None\<close> of type \<open>error option\<close> is Go's \<open>nil\<close>.

  \<open>log.Fatal\<close> and \<open>log.Fatalf\<close> print a message and end the process with
  \<open>os.Exit(1)\<close>. A function that can reach one of them has an \<open>outcome\<close>: either the
  process stopped (\<open>Fatal\<close>, with the message and the state at that moment), or the function
  returned (\<open>Returned\<close>, with its result and the state).
\<close>

type_synonym error = string

datatype ('a, 's) outcome = Fatal string 's | Returned 'a 's

fun state_of :: "('a, 's) outcome \<Rightarrow> 's" where
  "state_of (Fatal m s) = s"
| "state_of (Returned r s) = s"

text \<open>
  A Go slice that a function returns is either \<open>nil\<close> or a slice with its elements,
  which may be none: \<open>var out []T\<close> is nil, the literal \<open>[]T{}\<close> is empty and not nil,
  and \<open>append\<close> never returns nil when it is given an element. \<open>len\<close> and \<open>range\<close>
  see the elements only (\<open>elems\<close>); the comparison \<open>s == nil\<close> (\<open>is_nil\<close>),
  \<open>reflect.DeepEqual\<close> and \<open>encoding/json\<close>, which writes \<open>null\<close> for a nil slice and
  \<open>[]\<close> for an empty one, tell the two apart.
\<close>

datatype 'a slice = Nil_slice | Slice "'a list"

fun elems :: "'a slice \<Rightarrow> 'a list" where
  "elems Nil_slice = []"
| "elems (Slice xs) = xs"

fun is_nil :: "'a slice \<Rightarrow> bool" where
  "is_nil Nil_slice = True"
| "is_nil (Slice xs) = False"

text \<open>\<open>append(s, x)\<close>, and the slice after appending the elements of a list one by one.\<close>

fun append_slice :: "'a slice \<Rightarrow> 'a \<Rightarrow> 'a slice" where
  "append_slice Nil_slice x = Slice [x]"
| "append_slice (Slice xs) x = Slice (xs @ [x])"

definition append_all :: "'a slice \<Rightarrow> 'a list \<Rightarrow> 'a slice" where
  "append_all s xs = fold (\<lambda>x s. append_slice s x) xs s"

section \<open>The catalog (package core)\<close>

subsection \<open>placeholder\<close>

text \<open>
  \<^verbatim>\<open>
  func placeholder(pholder string) string {
      if DBTYPE == "ora" || DBTYPE == "oci8" {
          return fmt.Sprintf(":%s", pholder)
      } else if DBTYPE == "PostgreSQL" {
          return fmt.Sprintf("$%s", pholder)
      } else {
          return "?"
      }
  }
  \<close>
  The global \<open>DBTYPE\<close> is the first argument of the model.
\<close>

definition placeholder :: "string \<Rightarrow> string \<Rightarrow> string" where
  "placeholder DBTYPE pholder =
     (if DBTYPE = ''ora'' \<or> DBTYPE = ''oci8'' then '':'' @ pholder
      else if DBTYPE = ''PostgreSQL'' then ''$'' @ pholder
      else ''?'')"

subsection \<open>Entries and requests\<close>

text \<open>
  \<^verbatim>\<open>
  type CatalogEntry struct {
      Lfn     string `json:"lfn"`     // lfn stands for Logical File Name
      Pfn     string `json:"pfn"`     // pfn stands for Physical File Name
      Dataset string `json:"dataset"` // dataset represents collection of blocks
      Block   string `json:"block"`   // block idetify single block within a dataset
      Bytes   int64  `json:"bytes"`   // size of the files in bytes
      Hash    string `json:"hash"`    // hash represents checksum of the pfn
  }
  \<close>
  \<open>TransferRequest\<close> is declared in a file of package \<open>core\<close> that is not among these
  sources; the record has the three fields that \<open>Records\<close> and \<open>Files\<close> read. Its fields
  \<open>Block\<close> and \<open>Dataset\<close> are written \<open>TransferRequest.Block\<close> and
  \<open>TransferRequest.Dataset\<close>, the plain names being those of \<open>CatalogEntry\<close>.
  \<open>Bytes\<close> is an \<open>int64\<close> that the code only stores and reads back, so it is an
  \<open>int\<close> here.
\<close>

record TransferRequest =
  File :: string
  Block :: string
  Dataset :: string

record CatalogEntry =
  Lfn :: string
  Pfn :: string
  Dataset :: string
  Block :: string
  Bytes :: int
  Hash :: string

subsection \<open>The database behind \<open>DB\<close>\<close>

text \<open>
  Modelled from the spec: the SQL templates that \<open>LoadSQL\<close> reads from
  \<open>static/sql/<dbtype>/*.sql\<close>, the schema they work on and the engine that runs them
  are not among these sources. The spec (sections 3, 4.1 and 6) gives a Dataset table and a
  Block table, each with a surrogate id and a unique name, and a File table with foreign
  keys to both, in which a logical file name is unique per (dataset, block); \<open>Records\<close>
  reads the join File \<open>\<rightarrow>\<close> Block \<open>\<rightarrow>\<close> Dataset. A failed uniqueness constraint is reported
  with a message that contains \<open>UNIQUE\<close>, which is what \<open>Add\<close> looks for.
\<close>

datatype sqlval = S string | I int

record file_row =
  F_LFN :: string
  F_PFN :: string
  F_BLOCKID :: int
  F_DATASETID :: int
  F_BYTES :: int
  F_HASH :: string

record database =
  DATASETS :: "(int \<times> string) list"
  BLOCKS :: "(int \<times> string) list"
  FILES :: "file_row list"

definition sql_insert_datasets :: string where
  "sql_insert_datasets = ''INSERT INTO DATASETS (DATASET) VALUES (?)''"

definition sql_id_datasets :: string where
  "sql_id_datasets = ''SELECT ID FROM DATASETS WHERE DATASET=?''"

definition sql_insert_blocks :: string where
  "sql_insert_blocks = ''INSERT INTO BLOCKS (BLOCK) VALUES (?)''"

definition sql_id_blocks :: string where
  "sql_id_blocks = ''SELECT ID FROM BLOCKS WHERE BLOCK=?''"

definition sql_insert_files :: string where
  "sql_insert_files =
     ''INSERT INTO FILES (LFN,PFN,BLOCKID,DATASETID,BYTES,HASH) VALUES (?,?,?,?,?,?)''"

definition sql_files_blocks_datasets :: string where
  "sql_files_blocks_datasets =
     ''SELECT D.DATASET,B.BLOCK,F.LFN,F.PFN,F.BYTES,F.HASH FROM FILES F '' @
     ''JOIN BLOCKS B ON F.BLOCKID=B.ID JOIN DATASETS D ON F.DATASETID=D.ID''"

text \<open>
  Modelled from the spec: \<open>DBSQL\<close> as \<open>LoadSQL\<close> leaves it when the six templates
  are in place, one statement per file name.
\<close>

definition loaded_DBSQL :: "string \<rightharpoonup> string" where
  "loaded_DBSQL = map_of
     [(''insert_datasets'', sql_insert_datasets),
      (''id_datasets'', sql_id_datasets),
      (''insert_blocks'', sql_insert_blocks),
      (''id_blocks'', sql_id_blocks),
      (''insert_files'', sql_insert_files),
      (''files_blocks_datasets'', sql_files_blocks_datasets)]"

text \<open>A new row of DATASETS or BLOCKS gets an id above every id in the table.\<close>

definition next_id :: "(int \<times> string) list \<Rightarrow> int" where
  "next_id rows = fold max (map fst rows) 0 + 1"

definition UNIQUE_failed :: "string \<Rightarrow> error" where
  "UNIQUE_failed cols = ''UNIQUE constraint failed: '' @ cols"

definition file_key :: "file_row \<Rightarrow> string \<times> int \<times> int" where
  "file_key f = (F_LFN f, F_BLOCKID f, F_DATASETID f)"

text \<open>
  \<open>DB.Exec(stm, args...)\<close>. The first argument of the model is the failure the call meets
  for a reason outside the tables (connection lost, disk full, database locked), if any;
  the statement then changes nothing. Statements sent through \<open>DB\<close> run on their own and
  are durable as soon as the call returns: they do not belong to a transaction opened with
  \<open>DB.Begin\<close>, which only statements sent through the \<open>Tx\<close> value join.
\<close>

definition DB_Exec :: "error option \<Rightarrow> string \<Rightarrow> sqlval list \<Rightarrow> database \<Rightarrow> error option \<times> database" where
  "DB_Exec fault stm args db =
     (case fault of
        Some e \<Rightarrow> (Some e, db)
      | None \<Rightarrow>
          if stm = sql_insert_datasets then
            (case args of
               [S d] \<Rightarrow>
                 if d \<in> snd ` set (DATASETS db) then (Some (UNIQUE_failed ''DATASETS.DATASET''), db)
                 else (None, db\<lparr>DATASETS := DATASETS db @ [(next_id (DATASETS db), d)]\<rparr>)
             | _ \<Rightarrow> (Some ''sql: wrong arguments'', db))
          else if stm = sql_insert_blocks then
            (case args of
               [S b] \<Rightarrow>
                 if b \<in> snd ` set (BLOCKS db) then (Some (UNIQUE_failed ''BLOCKS.BLOCK''), db)
                 else (None, db\<lparr>BLOCKS := BLOCKS db @ [(next_id (BLOCKS db), b)]\<rparr>)
             | _ \<Rightarrow> (Some ''sql: wrong arguments'', db))
          else if stm = sql_insert_files then
            (case args of
               [S l, S p, I b, I d, I n, S h] \<Rightarrow>
                 if (l, b, d) \<in> file_key ` set (FILES db)
                 then (Some (UNIQUE_failed ''FILES.LFN, FILES.BLOCKID, FILES.DATASETID''), db)
                 else (None, db\<lparr>FILES := FILES db @
                         [\<lparr>F_LFN = l, F_PFN = p, F_BLOCKID = b, F_DATASETID = d, F_BYTES = n, F_HASH = h\<rparr>]\<rparr>)
             | _ \<Rightarrow> (Some ''sql: wrong arguments'', db))
          else (Some ''syntax error'', db))"

text \<open>
  The constraints of the schema: the primary keys and the unique names of DATASETS and
  BLOCKS, and the unique key of FILES. They hold of the empty tables and every statement
  keeps them (\<open>schema_ok_empty\<close>, \<open>schema_ok_DB_Exec\<close> below).
\<close>

definition schema_ok :: "database \<Rightarrow> bool" where
  "schema_ok db \<longleftrightarrow>
     distinct (map fst (DATASETS db)) \<and> distinct (map snd (DATASETS db)) \<and>
     distinct (map fst (BLOCKS db)) \<and> distinct (map snd (BLOCKS db)) \<and>
     distinct (map file_key (FILES db))"

text \<open>The rows of the join File \<open>\<rightarrow>\<close> Block \<open>\<rightarrow>\<close> Dataset, in the shape \<open>Records\<close> scans.\<close>

definition files_blocks_datasets :: "database \<Rightarrow> CatalogEntry list" where
  "files_blocks_datasets db =
     [\<lparr>Lfn = F_LFN f, Pfn = F_PFN f, Dataset = snd d, Block = snd b, Bytes = F_BYTES f, Hash = F_HASH f\<rparr>.
        f \<leftarrow> FILES db, b \<leftarrow> BLOCKS db, fst b = F_BLOCKID f, d \<leftarrow> DATASETS db, fst d = F_DATASETID f]"

definition row_of_entry :: "CatalogEntry \<Rightarrow> sqlval list" where
  "row_of_entry e = [S (Dataset e), S (Block e), S (Lfn e), S (Pfn e), I (Bytes e), S (Hash e)]"

text \<open>
  The WHERE clause that \<open>Records\<close> appends: words separated by single spaces, the word
  \<open>WHERE\<close>, then conditions \<open>column=placeholder\<close> separated by the word \<open>AND\<close>. A
  placeholder is \<open>?\<close>, \<open>:name\<close> or \<open>$name\<close>, the three syntaxes of the spec; the
  engine binds the i-th argument of the call to the i-th placeholder.
\<close>

fun words :: "string \<Rightarrow> string list" where
  "words [] = [[]]"
| "words (c # cs) =
     (if c = CHR '' '' then [] # words cs
      else (case words cs of w # ws \<Rightarrow> (c # w) # ws | [] \<Rightarrow> [[c]]))"

fun is_placeholder :: "string \<Rightarrow> bool" where
  "is_placeholder [] = False"
| "is_placeholder (c # name) =
     ((c = CHR ''?'' \<and> name = []) \<or> ((c = CHR '':'' \<or> c = CHR ''$'') \<and> name \<noteq> []))"

definition column :: "string \<Rightarrow> (CatalogEntry \<Rightarrow> sqlval) option" where
  "column cond =
     (let name = takeWhile (\<lambda>c. c \<noteq> CHR ''='') cond;
          holder = drop (Suc (length name)) cond
      in if \<not> is_placeholder holder then None
         else if name = ''F.LFN'' then Some (\<lambda>e. S (Lfn e))
         else if name = ''B.BLOCK'' then Some (\<lambda>e. S (Block e))
         else if name = ''D.DATASET'' then Some (\<lambda>e. S (Dataset e))
         else None)"

fun conditions :: "string list \<Rightarrow> (CatalogEntry \<Rightarrow> sqlval) list option" where
  "conditions [] = None"
| "conditions [cond] = map_option (\<lambda>c. [c]) (column cond)"
| "conditions (cond # kw # rest) =
     (if kw = ''AND'' then
        (case column cond of
           None \<Rightarrow> None
         | Some c \<Rightarrow> map_option (\<lambda>cs. c # cs) (conditions rest))
      else None)"

definition where_clause :: "string \<Rightarrow> (CatalogEntry \<Rightarrow> sqlval) list option" where
  "where_clause rest =
     (case words rest of
        [[]] \<Rightarrow> Some []
      | [] # kw # conds \<Rightarrow> if kw = ''WHERE'' then conditions conds else None
      | _ \<Rightarrow> None)"

text \<open>
  \<open>DB.Query(stm, args...)\<close>, with the failure the call meets, if any. The result is the
  pair that the Go call returns: the rows (none when there is an error) and the error.
\<close>

definition DB_Query :: "error option \<Rightarrow> string \<Rightarrow> sqlval list \<Rightarrow> database \<Rightarrow> sqlval list list \<times> error option" where
  "DB_Query fault stm args db =
     (case fault of
        Some e \<Rightarrow> ([], Some e)
      | None \<Rightarrow>
          if stm = sql_id_datasets then
            (case args of
               [S d] \<Rightarrow> ([[I (fst r)]. r \<leftarrow> DATASETS db, snd r = d], None)
             | _ \<Rightarrow> ([], Some ''sql: wrong arguments''))
          else if stm = sql_id_blocks then
            (case args of
               [S b] \<Rightarrow> ([[I (fst r)]. r \<leftarrow> BLOCKS db, snd r = b], None)
             | _ \<Rightarrow> ([], Some ''sql: wrong arguments''))
          else if take (length sql_files_blocks_datasets) stm = sql_files_blocks_datasets then
            (case where_clause (drop (length sql_files_blocks_datasets) stm) of
               None \<Rightarrow> ([], Some ''syntax error'')
             | Some cols \<Rightarrow>
                 if length cols \<noteq> length args then ([], Some ''sql: wrong arguments'')
                 else (map row_of_entry
                        (filter (\<lambda>e. list_all2 (\<lambda>c v. c e = v) cols args) (files_blocks_datasets db)),
                       None))
          else ([], Some ''syntax error''))"

subsection \<open>check, getSQL\<close>

text \<open>
  \<^verbatim>\<open>
  func check(msg string, err error) {
      if err != nil {
          log.Fatalf("ERROR %s, %v\n", msg, err)
      }
  }
  \<close>
  The result is the message of the fatal exit, or \<open>None\<close> when \<open>check\<close> returns.
\<close>

definition check :: "string \<Rightarrow> error option \<Rightarrow> string option" where
  "check msg err =
     (case err of None \<Rightarrow> None | Some e \<Rightarrow> Some (''ERROR '' @ msg @ '', '' @ e @ [CHR 0x0A]))"

text \<open>
  \<^verbatim>\<open>
  func getSQL(key string) string {
      stm, ok := DBSQL[key]
      if !ok {
          msg := fmt.Sprintf("Unable to load %s SQL", key)
          log.Fatal(msg)
      }
      return stm.(string)
  }
  \<close>
  \<open>Inl\<close> is the fatal exit. \<open>LoadSQL\<close> stores strings only, so the type assertion
  holds and the map is a map to strings.
\<close>

definition getSQL :: "(string \<rightharpoonup> string) \<Rightarrow> string \<Rightarrow> string + string" where
  "getSQL DBSQL key =
     (case DBSQL key of
        None \<Rightarrow> Inl (''Unable to load '' @ key @ '' SQL'')
      | Some stm \<Rightarrow> Inr stm)"

text \<open>\<open>strings.Contains(s, substr)\<close> and \<open>strings.Join(elems, sep)\<close>.\<close>

fun Contains :: "string \<Rightarrow> string \<Rightarrow> bool" where
  "Contains [] substr = (substr = [])"
| "Contains (c # s) substr = (take (length substr) (c # s) = substr \<or> Contains s substr)"

fun Join :: "string list \<Rightarrow> string \<Rightarrow> string" where
  "Join [] sep = []"
| "Join [x] sep = x"
| "Join (x # y # ys) sep = x @ sep @ Join (y # ys) sep"

subsection \<open>Catalog.Add\<close>

text \<open>
  The failures that the calls of \<open>Add\<close> into \<open>database/sql\<close> can meet for reasons outside
  the tables, one field per call, in the order of the calls. The value that
  \<open>tx.Commit()\<close> returns is dropped by the source, so it has no field.
\<close>

record faults =
  Begin_fault :: "error option"
  insert_datasets_fault :: "error option"
  id_datasets_fault :: "error option"
  insert_blocks_fault :: "error option"
  id_blocks_fault :: "error option"
  insert_files_fault :: "error option"

definition no_faults :: faults where
  "no_faults = \<lparr>Begin_fault = None, insert_datasets_fault = None, id_datasets_fault = None,
                 insert_blocks_fault = None, id_blocks_fault = None, insert_files_fault = None\<rparr>"

text \<open>
  \<^verbatim>\<open>
  for rows.Next() {
      err = rows.Scan(&did)
      check("Unable to scan rows for datasetid", err)
  }
  \<close>
  \<open>Scan\<close> into an \<open>int\<close> succeeds on a row of one integer and leaves the variable as it
  is otherwise. The last argument of \<open>scan_id\<close> is the value of the variable before the
  loop; \<open>Inl\<close> is the fatal exit of \<open>check\<close>.
\<close>

definition Scan_int :: "sqlval list \<Rightarrow> int \<Rightarrow> error option \<times> int" where
  "Scan_int row v = (case row of [I i] \<Rightarrow> (None, i) | _ \<Rightarrow> (Some ''sql: Scan error'', v))"

fun scan_id :: "string \<Rightarrow> sqlval list list \<Rightarrow> int \<Rightarrow> string + int" where
  "scan_id msg [] v = Inr v"
| "scan_id msg (row # rows) v =
     (case Scan_int row v of (err, v') \<Rightarrow>
      case check msg err of Some m \<Rightarrow> Inl m | None \<Rightarrow> scan_id msg rows v')"

text \<open>
  \<^verbatim>\<open>
  func (c *Catalog) Add(entry CatalogEntry) error {
      tx, e := DB.Begin()
      check("Unable to setup transaction", e)
      var stm string
      var did, bid int

      // insert dataset into dataset tables
      stm = getSQL("insert_datasets")
      _, e = DB.Exec(stm, entry.Dataset)
      if e != nil {
          if !strings.Contains(e.Error(), "UNIQUE") {
              check("Unable to insert into datasets table", e)
          }
      }
      // get dataset id
      stm = getSQL("id_datasets")
      rows, err := DB.Query(stm, entry.Dataset)
      check("Unable to perform DB.Query over datasets table", err)
      defer rows.Close()
      for rows.Next() { err = rows.Scan(&did); check("Unable to scan rows for datasetid", err) }
      // insert block into block table
      stm = getSQL("insert_blocks")
      _, e = DB.Exec(stm, entry.Block)
      if e != nil {
          if !strings.Contains(e.Error(), "UNIQUE") {
              check("Unable to insert into blocks table", e)
          }
      }
      // get block id
      stm = getSQL("id_blocks")
      rows, err = DB.Query(stm, entry.Block)
      check("Unable to DB.Query over blocks table", err)
      for rows.Next() { err = rows.Scan(&bid); check("Unable to scan rows for datasetid", err) }
      // insert entry into files table
      stm = getSQL("insert_files")
      _, err = DB.Exec(stm, entry.Lfn, entry.Pfn, bid, did, entry.Bytes, entry.Hash)
      if e != nil {
          if !strings.Contains(e.Error(), "UNIQUE") {
              check(fmt.Sprintf("Unable to DB.Exec(%s)", stm), err)
          }
      }
      tx.Commit()
      ...
      return nil
  }
  \<close>
  Every statement goes through \<open>DB\<close>, none through \<open>tx\<close>: the transaction that
  \<open>DB.Begin\<close> opens stays empty, and \<open>tx.Commit()\<close> commits nothing. The variables
  \<open>e\<close> and \<open>err\<close> are those of the source: after the insert into the files table the
  source stores the error in \<open>err\<close> and tests \<open>e\<close>, which still holds the error of the
  insert into the blocks table.

  The body is modelled in the three parts that its comments mark: \<open>Add_dataset\<close>
  (insert the dataset, get its id), \<open>Add_block\<close> (insert the block, get its id; it hands
  on \<open>e\<close>) and \<open>Add_file\<close> (insert the file row); \<open>Add\<close> runs them in turn
  after \<open>DB.Begin\<close>.
\<close>

definition Add_dataset :: "(string \<rightharpoonup> string) \<Rightarrow> faults \<Rightarrow> database \<Rightarrow> CatalogEntry \<Rightarrow> (int, database) outcome" where
  "Add_dataset DBSQL flt db entry =
     (case getSQL DBSQL ''insert_datasets'' of Inl m \<Rightarrow> Fatal m db | Inr stm \<Rightarrow>
      case DB_Exec (insert_datasets_fault flt) stm [S (Dataset entry)] db of (e, db1) \<Rightarrow>
      case (case e of None \<Rightarrow> None
            | Some msg \<Rightarrow> if \<not> Contains msg ''UNIQUE''
                          then check ''Unable to insert into datasets table'' e else None)
        of Some m \<Rightarrow> Fatal m db1 | None \<Rightarrow>
      case getSQL DBSQL ''id_datasets'' of Inl m \<Rightarrow> Fatal m db1 | Inr stm \<Rightarrow>
      case DB_Query (id_datasets_fault flt) stm [S (Dataset entry)] db1 of (rows, err) \<Rightarrow>
      case check ''Unable to perform DB.Query over datasets table'' err of
        Some m \<Rightarrow> Fatal m db1 | None \<Rightarrow>
      case scan_id ''Unable to scan rows for datasetid'' rows 0 of
        Inl m \<Rightarrow> Fatal m db1 | Inr did \<Rightarrow>
      Returned did db1)"

definition Add_block :: "(string \<rightharpoonup> string) \<Rightarrow> faults \<Rightarrow> database \<Rightarrow> CatalogEntry
    \<Rightarrow> (error option \<times> int, database) outcome" where
  "Add_block DBSQL flt db1 entry =
     (case getSQL DBSQL ''insert_blocks'' of Inl m \<Rightarrow> Fatal m db1 | Inr stm \<Rightarrow>
      case DB_Exec (insert_blocks_fault flt) stm [S (Block entry)] db1 of (e, db2) \<Rightarrow>
      case (case e of None \<Rightarrow> None
            | Some msg \<Rightarrow> if \<not> Contains msg ''UNIQUE''
                          then check ''Unable to insert into blocks table'' e else None)
        of Some m \<Rightarrow> Fatal m db2 | None \<Rightarrow>
      case getSQL DBSQL ''id_blocks'' of Inl m \<Rightarrow> Fatal m db2 | Inr stm \<Rightarrow>
      case DB_Query (id_blocks_fault flt) stm [S (Block entry)] db2 of (rows, err) \<Rightarrow>
      case check ''Unable to DB.Query over blocks table'' err of
        Some m \<Rightarrow> Fatal m db2 | None \<Rightarrow>
      case scan_id ''Unable to scan rows for datasetid'' rows 0 of
        Inl m \<Rightarrow> Fatal m db2 | Inr bid \<Rightarrow>
      Returned (e, bid) db2)"

definition Add_file :: "(string \<rightharpoonup> string) \<Rightarrow> faults \<Rightarrow> database \<Rightarrow> CatalogEntry
    \<Rightarrow> error option \<Rightarrow> int \<Rightarrow> int \<Rightarrow> (error option, database) outcome" where
  "Add_file DBSQL flt db2 entry e did bid =
     (case getSQL DBSQL ''insert_files'' of Inl m \<Rightarrow> Fatal m db2 | Inr stm \<Rightarrow>
      case DB_Exec (insert_files_fault flt) stm
             [S (Lfn entry), S (Pfn entry), I bid, I did, I (Bytes entry), S (Hash entry)] db2
        of (err, db3) \<Rightarrow>
      case (case e of None \<Rightarrow> None
            | Some msg \<Rightarrow> if \<not> Contains msg ''UNIQUE''
                          then check (''Unable to DB.Exec('' @ stm @ '')'') err else None)
        of Some m \<Rightarrow> Fatal m db3 | None \<Rightarrow>
      Returned None db3)"

definition Add :: "(string \<rightharpoonup> string) \<Rightarrow> faults \<Rightarrow> database \<Rightarrow> CatalogEntry \<Rightarrow> (error option, database) outcome" where
  "Add DBSQL flt db entry =
     (let e = Begin_fault flt in
      case check ''Unable to setup transaction'' e of Some m \<Rightarrow> Fatal m db | None \<Rightarrow>
      case Add_dataset DBSQL flt db entry of Fatal m db1 \<Rightarrow> Fatal m db1 | Returned did db1 \<Rightarrow>
      case Add_block DBSQL flt db1 entry of Fatal m db2 \<Rightarrow> Fatal m db2 | Returned (e, bid) db2 \<Rightarrow>
      Add_file DBSQL flt db2 entry e did bid)"

subsection \<open>Catalog.Records\<close>

text \<open>
  \<^verbatim>\<open>
  for rows.Next() {
      rec := CatalogEntry{}
      err := rows.Scan(&rec.Dataset, &rec.Block, &rec.Lfn, &rec.Pfn, &rec.Bytes, &rec.Hash)
      if err != nil {
          log.Println("ERROR rows.Scan", err)
      }
      out = append(out, rec)
  }
  \<close>
  \<open>Scan\<close> fills the six fields from a row of five strings and an integer in the order of
  the SELECT list, which is the only kind of row that \<open>DB_Query\<close> gives for this
  statement. For any other row the model reports an error and leaves the entry as it is;
  \<open>database/sql\<close> would convert some values and assign the columns before the one that
  fails. The slice \<open>out\<close> is nil before the loop.
\<close>

definition Scan_entry :: "sqlval list \<Rightarrow> CatalogEntry \<Rightarrow> error option \<times> CatalogEntry" where
  "Scan_entry row rec =
     (case row of
        [S d, S b, S l, S p, I n, S h] \<Rightarrow>
          (None, rec\<lparr>Dataset := d, Block := b, Lfn := l, Pfn := p, Bytes := n, Hash := h\<rparr>)
      | _ \<Rightarrow> (Some ''sql: Scan error'', rec))"

fun scan_entries :: "sqlval list list \<Rightarrow> CatalogEntry slice \<Rightarrow> CatalogEntry slice" where
  "scan_entries [] out = out"
| "scan_entries (row # rows) out =
     (let rec = \<lparr>Lfn = [], Pfn = [], Dataset = [], Block = [], Bytes = 0, Hash = []\<rparr>;
          (err, rec) = Scan_entry row rec
      in scan_entries rows (append_slice out rec))"

text \<open>
  \<^verbatim>\<open>
  func (c *Catalog) Records(req TransferRequest) []CatalogEntry {
      stm := getSQL("files_blocks_datasets")
      var cond []string
      var vals []interface{}
      if req.File != "" {
          cond = append(cond, fmt.Sprintf("F.LFN=%s", placeholder("lfn")))
          vals = append(vals, req.File)
      }
      if req.Block != "" {
          cond = append(cond, fmt.Sprintf("B.BLOCK=%s", placeholder("block")))
          vals = append(vals, req.Block)
      }
      if req.Dataset != "" {
          cond = append(cond, fmt.Sprintf("D.DATASET=%s", placeholder("dataset")))
          vals = append(vals, req.Dataset)
      }
      if len(cond) > 0 {
          stm += fmt.Sprintf(" WHERE %s", strings.Join(cond, " AND "))
      }
      ...
      rows, err := DB.Query(stm, vals...)
      if err != nil {
          log.Printf("ERROR DB.Query, query='%s' error=%v\n", stm, err)
          return []CatalogEntry{}
      }
      defer rows.Close()
      var out []CatalogEntry
      for rows.Next() { ... }
      return out
  }
  \<close>
  The arguments are the globals \<open>DBTYPE\<close> and \<open>DBSQL\<close>, the failure that \<open>DB.Query\<close>
  meets, if any, and the tables. The failure branch returns the empty slice literal
  \<open>[]CatalogEntry{}\<close>, which is not nil; the loop starts from the nil slice \<open>out\<close>, which
  is what \<open>Records\<close> returns when the query gives no row.
\<close>

definition Records :: "string \<Rightarrow> (string \<rightharpoonup> string) \<Rightarrow> error option \<Rightarrow> database \<Rightarrow> TransferRequest
    \<Rightarrow> (CatalogEntry slice, database) outcome" where
  "Records DBTYPE DBSQL fault db req =
     (case getSQL DBSQL ''files_blocks_datasets'' of Inl m \<Rightarrow> Fatal m db | Inr stm \<Rightarrow>
      let cond = []; vals = [];
          (cond, vals) = (if File req \<noteq> []
                          then (cond @ [''F.LFN='' @ placeholder DBTYPE ''lfn''], vals @ [S (File req)])
                          else (cond, vals));
          (cond, vals) = (if TransferRequest.Block req \<noteq> []
                          then (cond @ [''B.BLOCK='' @ placeholder DBTYPE ''block''],
                                vals @ [S (TransferRequest.Block req)])
                          else (cond, vals));
          (cond, vals) = (if TransferRequest.Dataset req \<noteq> []
                          then (cond @ [''D.DATASET='' @ placeholder DBTYPE ''dataset''],
                                vals @ [S (TransferRequest.Dataset req)])
                          else (cond, vals));
          stm = (if length cond > 0 then stm @ '' WHERE '' @ Join cond '' AND '' else stm)
      in case DB_Query fault stm vals db of (rows, err) \<Rightarrow>
         if err \<noteq> None then Returned (Slice []) db
         else Returned (scan_entries rows Nil_slice) db)"

text \<open>
  \<^verbatim>\<open>
  func (c *Catalog) Files(dataset, block, lfn string) []string {
      var files []string
      req := TransferRequest{Dataset: dataset, Block: block, File: lfn}
      for _, rec := range c.Records(req) {
          files = append(files, rec.Lfn)
      }
      return files
  }
  \<close>
\<close>

definition Files :: "string \<Rightarrow> (string \<rightharpoonup> string) \<Rightarrow> error option \<Rightarrow> database \<Rightarrow> string \<Rightarrow> string \<Rightarrow> string
    \<Rightarrow> (string slice, database) outcome" where
  "Files DBTYPE DBSQL fault db dataset block lfn =
     (let req = \<lparr>File = lfn, TransferRequest.Block = block, TransferRequest.Dataset = dataset\<rparr>
      in case Records DBTYPE DBSQL fault db req of
           Fatal m db' \<Rightarrow> Fatal m db'
         | Returned recs db' \<Rightarrow>
             Returned (fold (\<lambda>rec files. append_slice files (Lfn rec)) (elems recs) Nil_slice) db')"

subsection \<open>Tables and entries to run the model on\<close>

definition empty_db :: database where
  "empty_db = \<lparr>DATASETS = [], BLOCKS = [], FILES = []\<rparr>"

definition entry1 :: CatalogEntry where
  "entry1 = \<lparr>Lfn = ''/a/f1.root'', Pfn = ''/data/f1.root'', Dataset = ''/a/b/RAW'',
             Block = ''/a/b/RAW#1'', Bytes = 10, Hash = ''abc''\<rparr>"

definition entry2 :: CatalogEntry where
  "entry2 = \<lparr>Lfn = ''/a/f2.root'', Pfn = ''/data/f2.root'', Dataset = ''/a/b/RAW'',
             Block = ''/a/b/RAW#2'', Bytes = 20, Hash = ''def''\<rparr>"

definition two_files_db :: database where
  "two_files_db =
     \<lparr>DATASETS = [(1, ''/a/b/RAW'')],
      BLOCKS = [(1, ''/a/b/RAW#1''), (2, ''/a/b/RAW#2'')],
      FILES = [\<lparr>F_LFN = ''/a/f1.root'', F_PFN = ''/data/f1.root'', F_BLOCKID = 1,
                F_DATASETID = 1, F_BYTES = 10, F_HASH = ''abc''\<rparr>,
               \<lparr>F_LFN = ''/a/f2.root'', F_PFN = ''/data/f2.root'', F_BLOCKID = 2,
                F_DATASETID = 1, F_BYTES = 20, F_HASH = ''def''\<rparr>]\<rparr>"

section \<open>The agent mesh (package server)\<close>

text \<open>
  \<^verbatim>\<open>
  type AgentInfo struct {
      Agent string
      Alias string
  }
  var _myself, _alias, _protocol, _backend, _tool, _toolOpts string
  var _agents map[string]string
  \<close>
  The globals that \<open>register\<close> and \<open>registerAtAgents\<close> use are the fields of
  \<open>globals\<close> (\<open>g_myself\<close>, \<open>g_alias\<close>, \<open>g_agents\<close>: an identifier cannot start with an
  underscore here). The Go map
  \<open>_agents\<close> is an association list read through \<open>map_of\<close> and written through
  \<open>AList.update\<close>; \<open>range\<close> visits its pairs in the order of the list, one of the
  orders the Go runtime may choose. The field \<open>requests\<close> is not a variable of the
  source: it records, in order, the URL and body of every call of
  \<open>utils.FetchResponse\<close>, so that what the agent sends can be stated.

  \<open>utils.FetchResponse\<close>, \<open>json.Marshal\<close> and \<open>json.Unmarshal\<close> are not part of
  these sources; they are the three fields of \<open>network\<close>. \<open>json_Unmarshal\<close> gives
  the decoded \<open>map[string]string\<close>, or \<open>None\<close> when decoding returns an error.
\<close>

record AgentInfo =
  Agent :: string
  Alias :: string

record ResponseType =
  Data :: string
  Error :: "error option"
  Status :: string
  StatusCode :: int

record network =
  FetchResponse :: "string \<Rightarrow> string \<Rightarrow> ResponseType"
  json_Marshal :: "AgentInfo \<Rightarrow> string"
  json_Unmarshal :: "string \<Rightarrow> (string \<times> string) list option"

record globals =
  g_myself :: string
  g_alias :: string
  g_agents :: "(string \<times> string) list"
  requests :: "(string \<times> string) list"

text \<open>
  \<^verbatim>\<open>
  func register(register, alias, agent string) error {
      params := AgentInfo{Agent: _myself, Alias: _alias}
      data, err := json.Marshal(params)
      ...
      url := fmt.Sprintf("%s/register", register)
      resp := utils.FetchResponse(url, data) // POST request
      if resp.StatusCode != 200 {
          return fmt.Errorf("Response %s, error=%s", resp.Status, string(resp.Data))
      }
      return resp.Error
  }
  \<close>
  The parameters \<open>alias\<close> and \<open>agent\<close> are not used by the body, as in the source.
\<close>

definition register :: "network \<Rightarrow> string \<Rightarrow> string \<Rightarrow> string \<Rightarrow> globals \<Rightarrow> error option \<times> globals" where
  "register nw reg al ag g =
     (let params = \<lparr>Agent = g_myself g, Alias = g_alias g\<rparr>;
          data = json_Marshal nw params;
          url = reg @ ''/register'';
          resp = FetchResponse nw url data;
          g' = g\<lparr>requests := requests g @ [(url, data)]\<rparr>
      in if StatusCode resp \<noteq> 200
         then (Some (''Response '' @ Status resp @ '', error='' @ Data resp), g')
         else (Error resp, g'))"

text \<open>
  The loop that merges the table of the remote agent:
  \<^verbatim>\<open>
  for key, val := range remoteAgents {
      if _, ok := _agents[key]; !ok {
          _agents[key] = val // register remote agent/alias pair internally
      }
  }
  \<close>
\<close>

fun merge_remote :: "(string \<times> string) list \<Rightarrow> (string \<times> string) list \<Rightarrow> (string \<times> string) list" where
  "merge_remote [] ags = ags"
| "merge_remote ((key, val) # rest) ags =
     (if map_of ags key = None then merge_remote rest (AList.update key val ags)
      else merge_remote rest ags)"

text \<open>
  The loop that completes the registration:
  \<^verbatim>\<open>
  for alias, agent := range _agents {
      if agent == aName || alias == _alias {
          continue
      }
      register(agent, _alias, _myself) // submit remote registration of given agent name
  }
  \<close>
  The error that \<open>register\<close> returns is dropped.
\<close>

fun announce :: "network \<Rightarrow> string \<Rightarrow> (string \<times> string) list \<Rightarrow> globals \<Rightarrow> globals" where
  "announce nw aName [] g = g"
| "announce nw aName ((al, agent) # rest) g =
     (if agent = aName \<or> al = g_alias g then announce nw aName rest g
      else announce nw aName rest (snd (register nw agent (g_alias g) (g_myself g) g)))"

text \<open>
  \<^verbatim>\<open>
  func registerAtAgents(aName string) {
      // register itself
      if _, ok := _agents[_alias]; ok {
          log.Fatal("ERROR unable to register", _alias, "at", _agents, "since this name already exists")
      }
      _agents[_alias] = _myself

      // now ask remote server for its list of agents and update internal map
      if aName != "" && len(aName) > 0 {
          err := register(aName, _alias, _myself) // submit remote registration of given agent name
          if err != nil {
              log.Fatal("ERROR Unable to register", _alias, _myself, "at", aName, err)
          }
          aurl := fmt.Sprintf("%s/agents", aName)
          resp := utils.FetchResponse(aurl, []byte{})
          var remoteAgents map[string]string
          e := json.Unmarshal(resp.Data, &remoteAgents)
          if e == nil {
              for key, val := range remoteAgents { ... }
          }
      }

      // complete registration with other agents
      for alias, agent := range _agents { ... }
  }
  \<close>
  The text of the two fatal messages is shortened to its constant part.
\<close>

definition registerAtAgents :: "network \<Rightarrow> string \<Rightarrow> globals \<Rightarrow> (unit, globals) outcome" where
  "registerAtAgents nw aName g =
     (if map_of (g_agents g) (g_alias g) \<noteq> None
      then Fatal ''ERROR unable to register'' g
      else
        let g1 = g\<lparr>g_agents := AList.update (g_alias g) (g_myself g) (g_agents g)\<rparr> in
        if aName \<noteq> [] \<and> length aName > 0 then
          (case register nw aName (g_alias g1) (g_myself g1) g1 of
             (Some err, g2) \<Rightarrow> Fatal (''ERROR Unable to register '' @ err) g2
           | (None, g2) \<Rightarrow>
               let aurl = aName @ ''/agents'';
                   resp = FetchResponse nw aurl [];
                   g3 = g2\<lparr>requests := requests g2 @ [(aurl, [])]\<rparr>;
                   g4 = (case json_Unmarshal nw (Data resp) of
                           Some remoteAgents \<Rightarrow> g3\<lparr>g_agents := merge_remote remoteAgents (g_agents g3)\<rparr>
                         | None \<Rightarrow> g3)
               in Returned () (announce nw aName (g_agents g4) g4))
        else Returned () (announce nw aName (g_agents g1) g1))"

subsection \<open>A network and a table to run the model on\<close>

text \<open>
  Every peer answers 200; the bootstrap peer \<open>http://a\<close> serves a table of four
  agents; the body of a registration is written \<open>alias=url\<close>.
\<close>

definition example_network :: network where
  "example_network =
     \<lparr>FetchResponse = (\<lambda>url data.
          \<lparr>Data = (if url = ''http://a/agents'' then ''T'' else []),
           Error = None, Status = ''200 OK'', StatusCode = 200\<rparr>),
      json_Marshal = (\<lambda>i. Alias i @ ''='' @ Agent i),
      json_Unmarshal = (\<lambda>d. if d = ''T''
          then Some [(''A'', ''http://a''), (''B'', ''http://x''), (''C'', ''http://y''), (''D'', ''http://d'')]
          else None)\<rparr>"

section \<open>Hashing (package utils)\<close>

subsection \<open>SHA-256 and hexadecimal encoding\<close>

text \<open>
  \<open>crypto/sha256\<close> and \<open>encoding/hex\<close> belong to Go's standard library, not to these
  sources. The hash object that \<open>sha256.New()\<close> returns is modelled by what it computes:
  its state is the sequence of bytes written so far, \<open>Write\<close> appends to it, never fails
  and returns the number of bytes it was given, and \<open>Sum(nil)\<close> is the SHA-256 digest of
  the bytes written, as FIPS 180-4 defines it: the message is padded with the byte
  \<open>0x80\<close>, zero bytes and its length in bits as a 64-bit big-endian number to a multiple
  of 64 bytes, and each block of 64 bytes goes through 64 rounds on eight 32-bit words.
\<close>

type_synonym byte = "8 word"
type_synonym u32 = "32 word"

text \<open>
  The round constants of the standard, the first 32 bits of the fractional parts of the
  cube roots of the first 64 primes, as decimal numbers.
\<close>

definition K256 :: "u32 list" where
  "K256 =
   [1116352408, 1899447441, 3049323471, 3921009573, 961987163, 1508970993,
    2453635748, 2870763221, 3624381080, 310598401, 607225278, 1426881987,
    1925078388, 2162078206, 2614888103, 3248222580, 3835390401, 4022224774,
    264347078, 604807628, 770255983, 1249150122, 1555081692, 1996064986,
    2554220882, 2821834349, 2952996808, 3210313671, 3336571891, 3584528711,
    113926993, 338241895, 666307205, 773529912, 1294757372, 1396182291,
    1695183700, 1986661051, 2177026350, 2456956037, 2730485921, 2820302411,
    3259730800, 3345764771, 3516065817, 3600352804, 4094571909, 275423344,
    430227734, 506948616, 659060556, 883997877, 958139571, 1322822218,
    1537002063, 1747873779, 1955562222, 2024104815, 2227730452, 2361852424,
    2428436474, 2756734187, 3204031479, 3329325298]"

definition rotr :: "nat \<Rightarrow> u32 \<Rightarrow> u32" where
  "rotr n x = drop_bit n x OR push_bit (32 - n) x"

definition Ch :: "u32 \<Rightarrow> u32 \<Rightarrow> u32 \<Rightarrow> u32" where
  "Ch x y z = (x AND y) XOR (NOT x AND z)"

definition Maj :: "u32 \<Rightarrow> u32 \<Rightarrow> u32 \<Rightarrow> u32" where
  "Maj x y z = (x AND y) XOR (x AND z) XOR (y AND z)"

definition Sigma0 :: "u32 \<Rightarrow> u32" where
  "Sigma0 x = rotr 2 x XOR rotr 13 x XOR rotr 22 x"

definition Sigma1 :: "u32 \<Rightarrow> u32" where
  "Sigma1 x = rotr 6 x XOR rotr 11 x XOR rotr 25 x"

definition sigma0 :: "u32 \<Rightarrow> u32" where
  "sigma0 x = rotr 7 x XOR rotr 18 x XOR drop_bit 3 x"

definition sigma1 :: "u32 \<Rightarrow> u32" where
  "sigma1 x = rotr 17 x XOR rotr 19 x XOR drop_bit 10 x"

type_synonym sha_state = "u32 \<times> u32 \<times> u32 \<times> u32 \<times> u32 \<times> u32 \<times> u32 \<times> u32"

text \<open>
  One round per constant. The list \<open>w\<close> holds the sixteen words of the message
  schedule from the current round on; the word sixteen rounds ahead is appended.
\<close>

fun sha_rounds :: "u32 list \<Rightarrow> u32 list \<Rightarrow> sha_state \<Rightarrow> sha_state" where
  "sha_rounds [] w s = s"
| "sha_rounds (k # ks) w (a, b, c, d, e, f, g, h) =
     (let t1 = h + Sigma1 e + Ch e f g + k + w ! 0;
          t2 = Sigma0 a + Maj a b c;
          wn = sigma1 (w ! 14) + w ! 9 + sigma0 (w ! 1) + w ! 0
      in sha_rounds ks (tl w @ [wn]) (t1 + t2, a, b, c, d + t1, e, f, g))"

fun be32 :: "byte list \<Rightarrow> u32 list" where
  "be32 (b0 # b1 # b2 # b3 # bs) =
     (push_bit 24 (ucast b0) OR push_bit 16 (ucast b1) OR push_bit 8 (ucast b2) OR ucast b3) # be32 bs"
| "be32 bs = []"

definition sha_block :: "sha_state \<Rightarrow> byte list \<Rightarrow> sha_state" where
  "sha_block s p =
     (case s of (a, b, c, d, e, f, g, h) \<Rightarrow>
      case sha_rounds K256 (be32 p) s of (a', b', c', d', e', f', g', h') \<Rightarrow>
        (a + a', b + b', c + c', d + d', e + e', f + f', g + g', h + h'))"

function sha_blocks :: "sha_state \<Rightarrow> byte list \<Rightarrow> sha_state" where
  "sha_blocks s p = (if length p < 64 then s else sha_blocks (sha_block s (take 64 p)) (drop 64 p))"
  by pat_completeness auto
termination
  by (relation "measure (\<lambda>(s, p). length p)") auto

declare sha_blocks.simps [simp del]

definition sha_padding :: "nat \<Rightarrow> byte list" where
  "sha_padding n =
     0x80 # replicate ((119 - n mod 64) mod 64) 0 @
     map (\<lambda>i. ucast (drop_bit (8 * (7 - i)) (word_of_nat (8 * n) :: 64 word))) [0..<8]"

definition bytes_of :: "u32 \<Rightarrow> byte list" where
  "bytes_of x = [ucast (drop_bit 24 x), ucast (drop_bit 16 x), ucast (drop_bit 8 x), ucast x]"

definition Sum256 :: "byte list \<Rightarrow> byte list" where
  "Sum256 data =
     (case sha_blocks (0x6a09e667, 0xbb67ae85, 0x3c6ef372, 0xa54ff53a,
                       0x510e527f, 0x9b05688c, 0x1f83d9ab, 0x5be0cd19)
                      (data @ sha_padding (length data)) of
        (a, b, c, d, e, f, g, h) \<Rightarrow> concat (map bytes_of [a, b, c, d, e, f, g, h]))"

type_synonym hasher = "byte list"

definition sha256_New :: hasher where
  "sha256_New = []"

definition Write :: "hasher \<Rightarrow> byte list \<Rightarrow> hasher \<times> int \<times> error option" where
  "Write h p = (h @ p, int (length p), None)"

definition Sum :: "hasher \<Rightarrow> byte list \<Rightarrow> byte list" where
  "Sum h b = b @ Sum256 h"

text \<open>
  \<open>hex.EncodeToString\<close> of the standard library:
  \<^verbatim>\<open>
  const hextable = "0123456789abcdef"
  for _, v := range src {
      dst[j] = hextable[v>>4]
      dst[j+1] = hextable[v&0x0f]
      j += 2
  }
  \<close>
  Both indices are below 16, the length of \<open>hextable\<close>.
\<close>

definition hextable :: string where
  "hextable = ''0123456789abcdef''"

fun EncodeToString :: "byte list \<Rightarrow> string" where
  "EncodeToString [] = []"
| "EncodeToString (v # src) =
     hextable ! unat (drop_bit 4 v) # hextable ! unat (v AND 0x0f) # EncodeToString src"

text \<open>
  The lowercase hexadecimal encoding in the words of the claim: two digits per byte, the
  high one first, a digit below ten written \<open>0\<close> to \<open>9\<close> and the others \<open>a\<close> to \<open>f\<close>.
\<close>

definition hex_digit :: "nat \<Rightarrow> char" where
  "hex_digit d = (if d < 10 then ''0123456789'' ! d else ''abcdef'' ! (d - 10))"

definition lower_hex :: "byte list \<Rightarrow> string" where
  "lower_hex bs = concat (map (\<lambda>b. [hex_digit (unat b div 16), hex_digit (unat b mod 16)]) bs)"

subsection \<open>Hash\<close>

text \<open>
  \<^verbatim>\<open>
  func Hash(data []byte) (string, int64) {
      hasher := sha256.New()
      b, e := hasher.Write(data)
      if e != nil {
          log.Println("ERROR, Unable to write chunk of data via hasher.Write", e)
      }
      return hex.EncodeToString(hasher.Sum(nil)), int64(b)
  }
  \<close>
  The count is the \<open>int\<close> that \<open>Write\<close> returns, at most the length of a slice, so the
  conversion to \<open>int64\<close> keeps its value.
\<close>

definition utils_Hash :: "byte list \<Rightarrow> string \<times> int" where
  "utils_Hash data =
     (let hasher = sha256_New;
          (hasher, b, e) = Write hasher data
      in (EncodeToString (Sum hasher []), b))"

section \<open>Theorems\<close>

subsection \<open>The agent mesh\<close>

lemma register_fields:
  "g_agents (snd (register nw reg al ag g)) = g_agents g"
  "g_alias (snd (register nw reg al ag g)) = g_alias g"
  "g_myself (snd (register nw reg al ag g)) = g_myself g"
  "requests (snd (register nw reg al ag g)) =
     requests g @ [(reg @ ''/register'', json_Marshal nw \<lparr>Agent = g_myself g, Alias = g_alias g\<rparr>)]"
  by (simp_all add: register_def Let_def)

lemma register_result:
  "fst (register nw reg al ag g) =
     (let resp = FetchResponse nw (reg @ ''/register'') (json_Marshal nw \<lparr>Agent = g_myself g, Alias = g_alias g\<rparr>)
      in if StatusCode resp \<noteq> 200
         then Some (''Response '' @ Status resp @ '', error='' @ Data resp)
         else Error resp)"
  by (simp add: register_def Let_def)

lemma announce_fields:
  "g_agents (announce nw aName xs g) = g_agents g \<and>
   g_alias (announce nw aName xs g) = g_alias g \<and>
   g_myself (announce nw aName xs g) = g_myself g \<and>
   requests (announce nw aName xs g) =
     requests g @ map (\<lambda>p. (snd p @ ''/register'', json_Marshal nw \<lparr>Agent = g_myself g, Alias = g_alias g\<rparr>))
                      (filter (\<lambda>p. \<not> (snd p = aName \<or> fst p = g_alias g)) xs)"
proof (induction xs arbitrary: g)
  case Nil
  show ?case by simp
next
  case (Cons p xs)
  obtain al agent where p: "p = (al, agent)" by (cases p)
  show ?case
    using Cons.IH [of g] Cons.IH [of "snd (register nw agent (g_alias g) (g_myself g) g)"]
    by (simp add: p register_fields)
qed

lemma map_of_merge_remote:
  "map_of (merge_remote remote ags) k =
     (case map_of ags k of Some v \<Rightarrow> Some v | None \<Rightarrow> map_of remote k)"
proof (induction remote ags rule: merge_remote.induct)
  case (1 ags)
  show ?case by (simp split: option.split)
next
  case (2 key val rest ags)
  then show ?case
    by (auto simp: update_conv' split: option.splits)
qed

lemma distinct_merge_remote:
  "distinct (map fst ags) \<Longrightarrow> distinct (map fst (merge_remote remote ags))"
  by (induction remote ags rule: merge_remote.induct) (simp_all add: distinct_update)

lemma map_of_distinct_set:
  "distinct (map fst xs) \<Longrightarrow> ((k, v) \<in> set xs) = (map_of xs k = Some v)"
  by (metis map_of_eq_Some_iff)

lemma registerAtAgents_table:
  assumes absent: "map_of (g_agents g) (g_alias g) = None"
  shows "\<exists>remote. g_agents (state_of (registerAtAgents nw aName g)) =
           merge_remote remote (AList.update (g_alias g) (g_myself g) (g_agents g))"
proof -
  let ?g1 = "g\<lparr>g_agents := AList.update (g_alias g) (g_myself g) (g_agents g)\<rparr>"
  obtain e g2 where r: "register nw aName (g_alias g) (g_myself g) ?g1 = (e, g2)"
    by (cases "register nw aName (g_alias g) (g_myself g) ?g1")
  have g2: "g_agents g2 = g_agents ?g1"
    using register_fields(1) [of nw aName "g_alias g" "g_myself g" ?g1] by (simp add: r)
  show ?thesis
  proof (cases "aName = []")
    case True
    then have "g_agents (state_of (registerAtAgents nw aName g)) =
                 merge_remote [] (AList.update (g_alias g) (g_myself g) (g_agents g))"
      using absent by (simp add: registerAtAgents_def Let_def announce_fields)
    then show ?thesis by blast
  next
    case False
    show ?thesis
    proof (cases e)
      case (Some err)
      then have "g_agents (state_of (registerAtAgents nw aName g)) =
                 merge_remote [] (AList.update (g_alias g) (g_myself g) (g_agents g))"
        using absent False r g2 by (simp add: registerAtAgents_def Let_def)
      then show ?thesis by blast
    next
      case None
      show ?thesis
      proof (cases "json_Unmarshal nw (Data (FetchResponse nw (aName @ ''/agents'') []))")
        case None': None
        have "g_agents (state_of (registerAtAgents nw aName g)) =
                 merge_remote [] (AList.update (g_alias g) (g_myself g) (g_agents g))"
          using absent False r g2 None None'
          by (simp add: registerAtAgents_def Let_def announce_fields)
        then show ?thesis by blast
      next
        case (Some remote)
        have "g_agents (state_of (registerAtAgents nw aName g)) =
                 merge_remote remote (AList.update (g_alias g) (g_myself g) (g_agents g))"
          using absent False r g2 None Some
          by (simp add: registerAtAgents_def Let_def announce_fields)
        then show ?thesis by blast
      qed
    qed
  qed
qed

text \<open>
  C6. Self-registration stops the process whenever the agent's own alias is already a key
  of its local table: \<open>registerAtAgents\<close> ends in \<open>Fatal\<close> with the globals as they
  were (nothing overwritten, no request sent). When the alias is absent, the pair
  (alias, own URL) is in the table in every outcome, also when the process stops because the
  registration at the bootstrap peer failed, and every entry that was in the table is kept.
\<close>

theorem self_registration:
  "(map_of (g_agents g) (g_alias g) \<noteq> None \<longrightarrow>
      (\<exists>m. registerAtAgents nw aName g = Fatal m g)) \<and>
   (map_of (g_agents g) (g_alias g) = None \<longrightarrow>
      map_of (g_agents (state_of (registerAtAgents nw aName g))) (g_alias g) = Some (g_myself g) \<and>
      (\<forall>k v. map_of (g_agents g) k = Some v \<longrightarrow>
           map_of (g_agents (state_of (registerAtAgents nw aName g))) k = Some v))"
proof (intro conjI impI allI)
  assume "map_of (g_agents g) (g_alias g) \<noteq> None"
  then show "\<exists>m. registerAtAgents nw aName g = Fatal m g"
    by (simp add: registerAtAgents_def)
next
  assume absent: "map_of (g_agents g) (g_alias g) = None"
  from registerAtAgents_table [OF absent, of nw aName]
  obtain remote where t: "g_agents (state_of (registerAtAgents nw aName g)) =
      merge_remote remote (AList.update (g_alias g) (g_myself g) (g_agents g))" by blast
  show "map_of (g_agents (state_of (registerAtAgents nw aName g))) (g_alias g) = Some (g_myself g)"
    by (simp add: t map_of_merge_remote update_conv')
  fix k v
  assume "map_of (g_agents g) k = Some v"
  then show "map_of (g_agents (state_of (registerAtAgents nw aName g))) k = Some v"
    using absent by (auto simp: t map_of_merge_remote update_conv')
qed

theorem self_registration_witness:
  "map_of [(''C'', ''http://old'')] ''C'' \<noteq> None \<and>
   registerAtAgents example_network ''http://a''
      \<lparr>g_myself = ''http://c'', g_alias = ''C'', g_agents = [(''C'', ''http://old'')], requests = []\<rparr>
     = Fatal ''ERROR unable to register''
      \<lparr>g_myself = ''http://c'', g_alias = ''C'', g_agents = [(''C'', ''http://old'')], requests = []\<rparr> \<and>
   map_of [(''B'', ''http://b'')] ''C'' = None \<and>
   map_of (g_agents (state_of (registerAtAgents example_network []
      \<lparr>g_myself = ''http://c'', g_alias = ''C'', g_agents = [(''B'', ''http://b'')], requests = []\<rparr>))) ''C''
     = Some ''http://c'' \<and>
   map_of (g_agents (state_of (registerAtAgents example_network []
      \<lparr>g_myself = ''http://c'', g_alias = ''C'', g_agents = [(''B'', ''http://b'')], requests = []\<rparr>))) ''B''
     = Some ''http://b''"
  using self_registration [of "\<lparr>g_myself = ''http://c'', g_alias = ''C'', g_agents = [(''C'', ''http://old'')], requests = []\<rparr>" example_network "''http://a''"]
    self_registration [of "\<lparr>g_myself = ''http://c'', g_alias = ''C'', g_agents = [(''B'', ''http://b'')], requests = []\<rparr>" example_network "[]"]
  by (simp add: registerAtAgents_def)

text \<open>
  C7. A join with a bootstrap peer \<open>aName\<close>, when the registration there succeeds and
  the peer's table \<open>remote\<close> decodes: an alias of \<open>remote\<close> that is not a key of the
  local table (which holds the agent's own alias by then) is added with the URL the peer
  reports, a key that is present keeps its local URL; afterwards the agent posts its own
  (alias, url) once to each entry of the resulting table whose URL is not the bootstrap
  address and whose alias is not its own, and to nobody else.
\<close>

theorem join_merges_and_announces:
  assumes absent: "map_of (g_agents g) (g_alias g) = None"
    and keys: "distinct (map fst (g_agents g))"
    and boot: "aName \<noteq> []"
    and status: "StatusCode (FetchResponse nw (aName @ ''/register'')
                   (json_Marshal nw \<lparr>Agent = g_myself g, Alias = g_alias g\<rparr>)) = 200"
    and noerr: "Error (FetchResponse nw (aName @ ''/register'')
                   (json_Marshal nw \<lparr>Agent = g_myself g, Alias = g_alias g\<rparr>)) = None"
    and table: "json_Unmarshal nw (Data (FetchResponse nw (aName @ ''/agents'') [])) = Some remote"
  shows "\<exists>g'. registerAtAgents nw aName g = Returned () g' \<and>
     (\<forall>k. map_of (g_agents g') k =
          (if k = g_alias g then Some (g_myself g)
           else case map_of (g_agents g) k of Some v \<Rightarrow> Some v | None \<Rightarrow> map_of remote k)) \<and>
     distinct (map fst (g_agents g')) \<and>
     requests g' = requests g @
        [(aName @ ''/register'', json_Marshal nw \<lparr>Agent = g_myself g, Alias = g_alias g\<rparr>),
         (aName @ ''/agents'', [])] @
        map (\<lambda>p. (snd p @ ''/register'', json_Marshal nw \<lparr>Agent = g_myself g, Alias = g_alias g\<rparr>))
            (filter (\<lambda>p. snd p \<noteq> aName \<and> fst p \<noteq> g_alias g) (g_agents g')) \<and>
     set (filter (\<lambda>p. snd p \<noteq> aName \<and> fst p \<noteq> g_alias g) (g_agents g')) =
        {(k, u). map_of (g_agents g') k = Some u \<and> u \<noteq> aName \<and> k \<noteq> g_alias g}"
proof -
  let ?body = "json_Marshal nw \<lparr>Agent = g_myself g, Alias = g_alias g\<rparr>"
  let ?g1 = "g\<lparr>g_agents := AList.update (g_alias g) (g_myself g) (g_agents g)\<rparr>"
  obtain e g2 where r0: "register nw aName (g_alias g) (g_myself g) ?g1 = (e, g2)"
    by (cases "register nw aName (g_alias g) (g_myself g) ?g1")
  have "e = None"
    using status noerr register_result [of nw aName "g_alias g" "g_myself g" ?g1]
    by (simp add: r0)
  with r0 have r: "register nw aName (g_alias g) (g_myself g) ?g1 = (None, g2)" by simp
  have g2: "g_agents g2 = g_agents ?g1" "g_alias g2 = g_alias g" "g_myself g2 = g_myself g"
    "requests g2 = requests g @ [(aName @ ''/register'', ?body)]"
    using register_fields [of nw aName "g_alias g" "g_myself g" ?g1] by (simp_all add: r)
  let ?g3 = "g2\<lparr>requests := requests g2 @ [(aName @ ''/agents'', [])]\<rparr>"
  let ?g4 = "?g3\<lparr>g_agents := merge_remote remote (g_agents ?g3)\<rparr>"
  let ?g' = "announce nw aName (g_agents ?g4) ?g4"
  have run: "registerAtAgents nw aName g = Returned () ?g'"
    using absent boot table r by (simp add: registerAtAgents_def Let_def)
  have ags: "g_agents ?g' = merge_remote remote (AList.update (g_alias g) (g_myself g) (g_agents g))"
    by (simp add: announce_fields g2)
  have dist: "distinct (map fst (g_agents ?g'))"
    unfolding ags by (rule distinct_merge_remote) (simp add: distinct_update keys)
  have tab: "\<forall>k. map_of (g_agents ?g') k =
          (if k = g_alias g then Some (g_myself g)
           else case map_of (g_agents g) k of Some v \<Rightarrow> Some v | None \<Rightarrow> map_of remote k)"
    unfolding ags by (simp add: map_of_merge_remote update_conv')
  have reqs: "requests ?g' = requests g @
        [(aName @ ''/register'', ?body), (aName @ ''/agents'', [])] @
        map (\<lambda>p. (snd p @ ''/register'', ?body))
            (filter (\<lambda>p. snd p \<noteq> aName \<and> fst p \<noteq> g_alias g) (g_agents ?g'))"
    by (simp add: announce_fields g2)
  have sets: "set (filter (\<lambda>p. snd p \<noteq> aName \<and> fst p \<noteq> g_alias g) (g_agents ?g')) =
        {(k, u). map_of (g_agents ?g') k = Some u \<and> u \<noteq> aName \<and> k \<noteq> g_alias g}"
    using map_of_distinct_set [OF dist] by auto
  show ?thesis
    using run tab dist reqs sets by blast
qed

theorem join_merges_and_announces_witness:
  "map_of [(''B'', ''http://b'')] ''C'' = None \<and>
   distinct (map fst [(''B'', ''http://b'')]) \<and>
   ''http://a'' \<noteq> [] \<and>
   StatusCode (FetchResponse example_network (''http://a'' @ ''/register'')
      (json_Marshal example_network \<lparr>Agent = ''http://c'', Alias = ''C''\<rparr>)) = 200 \<and>
   Error (FetchResponse example_network (''http://a'' @ ''/register'')
      (json_Marshal example_network \<lparr>Agent = ''http://c'', Alias = ''C''\<rparr>)) = None \<and>
   json_Unmarshal example_network (Data (FetchResponse example_network (''http://a'' @ ''/agents'') []))
     = Some [(''A'', ''http://a''), (''B'', ''http://x''), (''C'', ''http://y''), (''D'', ''http://d'')] \<and>
   registerAtAgents example_network ''http://a''
      \<lparr>g_myself = ''http://c'', g_alias = ''C'', g_agents = [(''B'', ''http://b'')], requests = []\<rparr>
     = Returned ()
      \<lparr>g_myself = ''http://c'', g_alias = ''C'',
       g_agents = [(''B'', ''http://b''), (''C'', ''http://c''), (''A'', ''http://a''), (''D'', ''http://d'')],
       requests = [(''http://a/register'', ''C=http://c''), (''http://a/agents'', []),
                   (''http://b/register'', ''C=http://c''), (''http://d/register'', ''C=http://c'')]\<rparr>"
  using join_merges_and_announces [of
      "\<lparr>g_myself = ''http://c'', g_alias = ''C'', g_agents = [(''B'', ''http://b'')], requests = []\<rparr>"
      "''http://a''" example_network
      "[(''A'', ''http://a''), (''B'', ''http://x''), (''C'', ''http://y''), (''D'', ''http://d'')]"]
  by (simp add: example_network_def registerAtAgents_def register_def)

subsection \<open>The catalog\<close>

lemma getSQL_loaded:
  "getSQL loaded_DBSQL ''insert_datasets'' = Inr sql_insert_datasets"
  "getSQL loaded_DBSQL ''id_datasets'' = Inr sql_id_datasets"
  "getSQL loaded_DBSQL ''insert_blocks'' = Inr sql_insert_blocks"
  "getSQL loaded_DBSQL ''id_blocks'' = Inr sql_id_blocks"
  "getSQL loaded_DBSQL ''insert_files'' = Inr sql_insert_files"
  "getSQL loaded_DBSQL ''files_blocks_datasets'' = Inr sql_files_blocks_datasets"
  by (simp_all add: getSQL_def loaded_DBSQL_def)

lemma sql_distinct:
  "sql_insert_blocks \<noteq> sql_insert_datasets"
  "sql_insert_files \<noteq> sql_insert_datasets"
  "sql_insert_files \<noteq> sql_insert_blocks"
  "sql_id_blocks \<noteq> sql_id_datasets"
  by (simp_all add: sql_insert_datasets_def sql_insert_blocks_def sql_insert_files_def
        sql_id_datasets_def sql_id_blocks_def)

lemma DB_Exec_fault [simp]: "DB_Exec (Some e) stm args db = (Some e, db)"
  by (simp add: DB_Exec_def)

lemma DB_Exec_insert_datasets:
  "DB_Exec None sql_insert_datasets [S d] db =
     (if d \<in> snd ` set (DATASETS db) then (Some (UNIQUE_failed ''DATASETS.DATASET''), db)
      else (None, db\<lparr>DATASETS := DATASETS db @ [(next_id (DATASETS db), d)]\<rparr>))"
  by (simp add: DB_Exec_def)

lemma DB_Exec_insert_blocks:
  "DB_Exec None sql_insert_blocks [S b] db =
     (if b \<in> snd ` set (BLOCKS db) then (Some (UNIQUE_failed ''BLOCKS.BLOCK''), db)
      else (None, db\<lparr>BLOCKS := BLOCKS db @ [(next_id (BLOCKS db), b)]\<rparr>))"
  by (simp add: DB_Exec_def sql_distinct)

lemma DB_Exec_insert_files:
  "DB_Exec None sql_insert_files [S l, S p, I b, I d, I n, S h] db =
     (if (l, b, d) \<in> file_key ` set (FILES db)
      then (Some (UNIQUE_failed ''FILES.LFN, FILES.BLOCKID, FILES.DATASETID''), db)
      else (None, db\<lparr>FILES := FILES db @
              [\<lparr>F_LFN = l, F_PFN = p, F_BLOCKID = b, F_DATASETID = d, F_BYTES = n, F_HASH = h\<rparr>]\<rparr>))"
  by (simp add: DB_Exec_def sql_distinct)

lemma DB_Query_fault [simp]: "DB_Query (Some e) stm args db = ([], Some e)"
  by (simp add: DB_Query_def)

lemma DB_Query_id_datasets:
  "DB_Query None sql_id_datasets [S d] db = ([[I (fst r)]. r \<leftarrow> DATASETS db, snd r = d], None)"
  by (simp add: DB_Query_def)

lemma DB_Query_id_blocks:
  "DB_Query None sql_id_blocks [S b] db = ([[I (fst r)]. r \<leftarrow> BLOCKS db, snd r = b], None)"
  by (simp add: DB_Query_def sql_distinct)

lemma Contains_UNIQUE_failed [simp]: "Contains (UNIQUE_failed cols) ''UNIQUE''"
  by (simp add: UNIQUE_failed_def)

lemma fold_max_ge: "(a::int) \<le> fold max xs a"
  by (induction xs arbitrary: a) (auto intro: order_trans [OF max.cobounded2])

lemma fold_max_mem: "x \<in> set xs \<Longrightarrow> (x::int) \<le> fold max xs a"
proof (induction xs arbitrary: a)
  case Nil
  then show ?case by simp
next
  case (Cons y ys)
  show ?case
  proof (cases "x = y")
    case True
    have "x \<le> max x a" by simp
    also have "\<dots> \<le> fold max ys (max x a)" by (rule fold_max_ge)
    finally show ?thesis using True by simp
  next
    case False
    with Cons.prems have "x \<in> set ys" by simp
    then show ?thesis using Cons.IH by simp
  qed
qed

lemma next_id_fresh: "next_id rows \<notin> fst ` set rows"
proof
  assume "next_id rows \<in> fst ` set rows"
  then have "next_id rows \<in> set (map fst rows)" by simp
  then have "next_id rows \<le> fold max (map fst rows) 0" by (rule fold_max_mem)
  then show False by (simp add: next_id_def)
qed

lemma schema_ok_empty: "schema_ok empty_db"
  by (simp add: schema_ok_def empty_db_def)

lemma schema_ok_DB_Exec:
  assumes "schema_ok db"
  shows "schema_ok (snd (DB_Exec fault stm args db))"
proof (cases fault)
  case (Some e)
  then show ?thesis using assms by simp
next
  case None
  show ?thesis
    using assms next_id_fresh [of "DATASETS db"] next_id_fresh [of "BLOCKS db"]
    by (auto simp: DB_Exec_def None schema_ok_def file_key_def
          split: list.splits sqlval.splits)
qed

lemma row_ids_unique:
  assumes "distinct (map snd rows)" and "(i, n) \<in> set rows"
  shows "[[I (fst r)]. r \<leftarrow> rows, snd r = n] = [[I i]]"
  using assms
proof (induction rows)
  case Nil
  then show ?case by simp
next
  case (Cons r rows)
  show ?case
  proof (cases "r = (i, n)")
    case True
    have "\<forall>q \<in> set rows. snd q \<noteq> n" using Cons.prems(1) True by force
    then have "[[I (fst r)]. r \<leftarrow> rows, snd r = n] = []"
      by (induction rows) auto
    then show ?thesis using True by simp
  next
    case False
    with Cons.prems have mem: "(i, n) \<in> set rows" by simp
    have "n \<in> snd ` set rows" using mem by force
    then have "snd r \<noteq> n" using Cons.prems(1) by auto
    then show ?thesis using Cons.IH Cons.prems(1) mem by simp
  qed
qed

lemma no_faults_fields:
  "Begin_fault no_faults = None" "insert_datasets_fault no_faults = None"
  "id_datasets_fault no_faults = None" "insert_blocks_fault no_faults = None"
  "id_blocks_fault no_faults = None" "insert_files_fault no_faults = None"
  by (simp_all add: no_faults_def)

lemma scan_id_single: "scan_id msg [[I i]] v = Inr i"
  by (simp add: Scan_int_def check_def)

lemma Add_dataset_no_faults:
  assumes ok: "schema_ok db"
  shows "\<exists>did. (did, Dataset entry) \<in> set (DATASETS (snd (DB_Exec None sql_insert_datasets [S (Dataset entry)] db))) \<and>
           Add_dataset loaded_DBSQL no_faults db entry =
             Returned did (snd (DB_Exec None sql_insert_datasets [S (Dataset entry)] db))"
proof -
  define e where "e = fst (DB_Exec None sql_insert_datasets [S (Dataset entry)] db)"
  define db1 where "db1 = snd (DB_Exec None sql_insert_datasets [S (Dataset entry)] db)"
  have ex: "DB_Exec None sql_insert_datasets [S (Dataset entry)] db = (e, db1)"
    by (simp add: e_def db1_def)
  have e: "e = None \<or> e = Some (UNIQUE_failed ''DATASETS.DATASET'')"
    by (simp add: e_def DB_Exec_insert_datasets)
  have "Dataset entry \<in> snd ` set (DATASETS db1)"
    by (simp add: db1_def DB_Exec_insert_datasets)
  then obtain did where did: "(did, Dataset entry) \<in> set (DATASETS db1)" by force
  have "schema_ok db1" unfolding db1_def using ok by (rule schema_ok_DB_Exec)
  then have "distinct (map snd (DATASETS db1))" by (simp add: schema_ok_def)
  then have q: "DB_Query None sql_id_datasets [S (Dataset entry)] db1 = ([[I did]], None)"
    using did by (simp only: DB_Query_id_datasets row_ids_unique)
  have "Add_dataset loaded_DBSQL no_faults db entry = Returned did db1"
    using e by (auto simp: Add_dataset_def getSQL_loaded no_faults_fields ex q check_def scan_id_single
                  simp del: scan_id.simps)
  with did show ?thesis unfolding db1_def by blast
qed

lemma Add_block_no_faults:
  assumes ok: "schema_ok db"
  shows "\<exists>e bid. (bid, Block entry) \<in> set (BLOCKS (snd (DB_Exec None sql_insert_blocks [S (Block entry)] db))) \<and>
           (e = None \<or> e = Some (UNIQUE_failed ''BLOCKS.BLOCK'')) \<and>
           Add_block loaded_DBSQL no_faults db entry =
             Returned (e, bid) (snd (DB_Exec None sql_insert_blocks [S (Block entry)] db))"
proof -
  define e where "e = fst (DB_Exec None sql_insert_blocks [S (Block entry)] db)"
  define db2 where "db2 = snd (DB_Exec None sql_insert_blocks [S (Block entry)] db)"
  have ex: "DB_Exec None sql_insert_blocks [S (Block entry)] db = (e, db2)"
    by (simp add: e_def db2_def)
  have e: "e = None \<or> e = Some (UNIQUE_failed ''BLOCKS.BLOCK'')"
    by (simp add: e_def DB_Exec_insert_blocks)
  have "Block entry \<in> snd ` set (BLOCKS db2)"
    by (simp add: db2_def DB_Exec_insert_blocks)
  then obtain bid where bid: "(bid, Block entry) \<in> set (BLOCKS db2)" by force
  have "schema_ok db2" unfolding db2_def using ok by (rule schema_ok_DB_Exec)
  then have "distinct (map snd (BLOCKS db2))" by (simp add: schema_ok_def)
  then have q: "DB_Query None sql_id_blocks [S (Block entry)] db2 = ([[I bid]], None)"
    using bid by (simp only: DB_Query_id_blocks row_ids_unique)
  have "Add_block loaded_DBSQL no_faults db entry = Returned (e, bid) db2"
    using e by (auto simp: Add_block_def getSQL_loaded no_faults_fields ex q check_def scan_id_single
                  simp del: scan_id.simps)
  with bid e show ?thesis unfolding db2_def by blast
qed

lemma Add_file_no_faults:
  assumes "e = None \<or> e = Some (UNIQUE_failed cols)"
  shows "Add_file loaded_DBSQL no_faults db entry e did bid =
           Returned None (snd (DB_Exec None sql_insert_files
              [S (Lfn entry), S (Pfn entry), I bid, I did, I (Bytes entry), S (Hash entry)] db))"
  using assms
  by (auto simp: Add_file_def getSQL_loaded no_faults_fields split: prod.splits)

lemma Add_no_faults:
  assumes ok: "schema_ok db"
  shows "\<exists>did bid.
     (did, Dataset entry) \<in> set (DATASETS (snd (DB_Exec None sql_insert_datasets [S (Dataset entry)] db))) \<and>
     (bid, Block entry) \<in> set (BLOCKS (snd (DB_Exec None sql_insert_blocks [S (Block entry)]
         (snd (DB_Exec None sql_insert_datasets [S (Dataset entry)] db))))) \<and>
     Add loaded_DBSQL no_faults db entry =
       Returned None (snd (DB_Exec None sql_insert_files
          [S (Lfn entry), S (Pfn entry), I bid, I did, I (Bytes entry), S (Hash entry)]
          (snd (DB_Exec None sql_insert_blocks [S (Block entry)]
             (snd (DB_Exec None sql_insert_datasets [S (Dataset entry)] db))))))"
proof -
  let ?db1 = "snd (DB_Exec None sql_insert_datasets [S (Dataset entry)] db)"
  let ?db2 = "snd (DB_Exec None sql_insert_blocks [S (Block entry)] ?db1)"
  from Add_dataset_no_faults [OF ok, of entry]
  obtain did where did: "(did, Dataset entry) \<in> set (DATASETS ?db1)"
    and s1: "Add_dataset loaded_DBSQL no_faults db entry = Returned did ?db1" by blast
  have ok1: "schema_ok ?db1" using ok by (rule schema_ok_DB_Exec)
  from Add_block_no_faults [OF ok1, of entry]
  obtain e bid where bid: "(bid, Block entry) \<in> set (BLOCKS ?db2)"
    and e: "e = None \<or> e = Some (UNIQUE_failed ''BLOCKS.BLOCK'')"
    and s2: "Add_block loaded_DBSQL no_faults ?db1 entry = Returned (e, bid) ?db2" by blast
  have "Add loaded_DBSQL no_faults db entry =
          Add_file loaded_DBSQL no_faults ?db2 entry e did bid"
    by (simp add: Add_def s1 s2 check_def no_faults_fields)
  with Add_file_no_faults [OF e] did bid show ?thesis by metis
qed

lemma unique_id:
  assumes "distinct (map snd rows)" and "(i, n) \<in> set rows" and "(j, n) \<in> set rows"
  shows "i = j"
  using assms
proof (induction rows)
  case Nil
  then show ?case by simp
next
  case (Cons r rows)
  have notin: "snd r \<notin> snd ` set rows" using Cons.prems(1) by simp
  show ?case
  proof (cases "r = (i, n)")
    case True
    then have "(j, n) \<notin> set rows" using notin by force
    then show ?thesis using Cons.prems(3) True by simp
  next
    case False
    then have i: "(i, n) \<in> set rows" using Cons.prems(2) by simp
    then have "r \<noteq> (j, n)" using notin by force
    then have "(j, n) \<in> set rows" using Cons.prems(3) by auto
    then show ?thesis using Cons.IH Cons.prems(1) i by simp
  qed
qed

lemma select_by_id:
  assumes "distinct (map fst rows)"
  shows "concat (map (\<lambda>r. if fst r = k then h r else []) rows) =
           (case map_of rows k of None \<Rightarrow> [] | Some v \<Rightarrow> h (k, v))"
  using assms
proof (induction rows)
  case Nil
  then show ?case by simp
next
  case (Cons r rows)
  obtain a b where r: "r = (a, b)" by (cases r)
  show ?case
  proof (cases "a = k")
    case True
    then have "k \<notin> fst ` set rows" using Cons.prems r by simp
    then have "map_of rows k = None" by (simp add: map_of_eq_None_iff)
    then show ?thesis using Cons.IH Cons.prems True r by simp
  next
    case False
    then show ?thesis using Cons.IH Cons.prems r by simp
  qed
qed

lemma count_key:
  assumes "distinct (map k xs)" and "y \<in> k ` set xs"
  shows "length (filter (\<lambda>x. k x = y) xs) = 1"
  using assms
proof (induction xs)
  case Nil
  then show ?case by simp
next
  case (Cons x xs)
  show ?case
  proof (cases "k x = y")
    case True
    then have "y \<notin> k ` set xs" using Cons.prems(1) by simp
    then have "filter (\<lambda>x. k x = y) xs = []" by (auto simp: filter_empty_conv)
    then show ?thesis using True by simp
  next
    case False
    then show ?thesis using Cons by auto
  qed
qed

lemma files_blocks_datasets_by_file:
  assumes ok: "schema_ok db"
  shows "files_blocks_datasets db =
     concat (map (\<lambda>f. case map_of (BLOCKS db) (F_BLOCKID f) of None \<Rightarrow> []
                      | Some b \<Rightarrow> (case map_of (DATASETS db) (F_DATASETID f) of None \<Rightarrow> []
                          | Some d \<Rightarrow> [\<lparr>Lfn = F_LFN f, Pfn = F_PFN f, Dataset = d, Block = b,
                                         Bytes = F_BYTES f, Hash = F_HASH f\<rparr>]))
                 (FILES db))"
proof -
  have db: "distinct (map fst (BLOCKS db))" and dd: "distinct (map fst (DATASETS db))"
    using ok by (simp_all add: schema_ok_def)
  show ?thesis
    unfolding files_blocks_datasets_def
    by (simp add: select_by_id [OF db] select_by_id [OF dd] cong: option.case_cong)
qed

lemma reachable_rows:
  assumes ok: "schema_ok db"
    and d: "(did, D) \<in> set (DATASETS db)" and b: "(bid, B) \<in> set (BLOCKS db)"
  shows "length (filter (\<lambda>r. Dataset r = D \<and> Block r = B \<and> Lfn r = L) (files_blocks_datasets db)) =
         length (filter (\<lambda>f. file_key f = (L, bid, did)) (FILES db))"
proof -
  have dbf: "distinct (map fst (BLOCKS db))" and ddf: "distinct (map fst (DATASETS db))"
    and dbs: "distinct (map snd (BLOCKS db))" and dds: "distinct (map snd (DATASETS db))"
    using ok by (simp_all add: schema_ok_def)
  have bl: "map_of (BLOCKS db) i = Some B \<longleftrightarrow> i = bid" for i
  proof
    assume "map_of (BLOCKS db) i = Some B"
    then have "(i, B) \<in> set (BLOCKS db)" by (rule map_of_SomeD)
    then show "i = bid" using b by (rule unique_id [OF dbs])
  next
    assume "i = bid"
    then show "map_of (BLOCKS db) i = Some B" using map_of_is_SomeI [OF dbf b] by simp
  qed
  have ds: "map_of (DATASETS db) i = Some D \<longleftrightarrow> i = did" for i
  proof
    assume "map_of (DATASETS db) i = Some D"
    then have "(i, D) \<in> set (DATASETS db)" by (rule map_of_SomeD)
    then show "i = did" using d by (rule unique_id [OF dds])
  next
    assume "i = did"
    then show "map_of (DATASETS db) i = Some D" using map_of_is_SomeI [OF ddf d] by simp
  qed
  have sum: "length (filter P (concat (map g fs))) = length (filter Q fs)"
    if "\<And>f. f \<in> set fs \<Longrightarrow> length (filter P (g f)) = (if Q f then 1 else 0)"
    for P :: "CatalogEntry \<Rightarrow> bool" and g and Q :: "file_row \<Rightarrow> bool" and fs
    using that by (induction fs) auto
  have one: "length (filter (\<lambda>r. Dataset r = D \<and> Block r = B \<and> Lfn r = L)
        (case map_of (BLOCKS db) (F_BLOCKID f) of None \<Rightarrow> []
         | Some b \<Rightarrow> (case map_of (DATASETS db) (F_DATASETID f) of None \<Rightarrow> []
             | Some d \<Rightarrow> [\<lparr>Lfn = F_LFN f, Pfn = F_PFN f, Dataset = d, Block = b,
                            Bytes = F_BYTES f, Hash = F_HASH f\<rparr>]))) =
      (if file_key f = (L, bid, did) then 1 else 0)" for f
    using bl [of "F_BLOCKID f"] ds [of "F_DATASETID f"]
    by (auto simp: file_key_def split: option.splits)
  show ?thesis
    unfolding files_blocks_datasets_by_file [OF ok]
    by (rule sum) (rule one)
qed

lemma DB_Exec_other_tables:
  "DATASETS (snd (DB_Exec None sql_insert_blocks [S b] db)) = DATASETS db"
  "DATASETS (snd (DB_Exec None sql_insert_files [S l, S p, I bi, I di, I n, S h] db)) = DATASETS db"
  "BLOCKS (snd (DB_Exec None sql_insert_files [S l, S p, I bi, I di, I n, S h] db)) = BLOCKS db"
  by (simp_all add: DB_Exec_insert_blocks DB_Exec_insert_files)

lemma DB_Exec_insert_files_key:
  "(l, bi, di) \<in> file_key ` set (FILES (snd (DB_Exec None sql_insert_files [S l, S p, I bi, I di, I n, S h] db)))"
  by (simp add: DB_Exec_insert_files file_key_def)

lemma DB_Exec_conflict:
  "(i, d) \<in> set (DATASETS db) \<Longrightarrow>
     DB_Exec None sql_insert_datasets [S d] db = (Some (UNIQUE_failed ''DATASETS.DATASET''), db)"
  "(j, b) \<in> set (BLOCKS db) \<Longrightarrow>
     DB_Exec None sql_insert_blocks [S b] db = (Some (UNIQUE_failed ''BLOCKS.BLOCK''), db)"
  "(l, j, i) \<in> file_key ` set (FILES db) \<Longrightarrow>
     DB_Exec None sql_insert_files [S l, S p, I j, I i, I n, S h] db =
       (Some (UNIQUE_failed ''FILES.LFN, FILES.BLOCKID, FILES.DATASETID''), db)"
  by (force simp: DB_Exec_insert_datasets DB_Exec_insert_blocks DB_Exec_insert_files)+

lemma Add_again:
  assumes ok: "schema_ok db"
    and d: "(did, Dataset entry) \<in> set (DATASETS db)"
    and b: "(bid, Block entry) \<in> set (BLOCKS db)"
    and f: "(Lfn entry, bid, did) \<in> file_key ` set (FILES db)"
  shows "Add loaded_DBSQL no_faults db entry = Returned None db"
proof -
  have dds: "distinct (map snd (DATASETS db))" and dbs: "distinct (map snd (BLOCKS db))"
    using ok by (simp_all add: schema_ok_def)
  from Add_no_faults [OF ok, of entry]
  obtain did' bid' where
    d': "(did', Dataset entry) \<in> set (DATASETS (snd (DB_Exec None sql_insert_datasets [S (Dataset entry)] db)))"
    and b': "(bid', Block entry) \<in> set (BLOCKS (snd (DB_Exec None sql_insert_blocks [S (Block entry)]
         (snd (DB_Exec None sql_insert_datasets [S (Dataset entry)] db)))))"
    and run: "Add loaded_DBSQL no_faults db entry =
       Returned None (snd (DB_Exec None sql_insert_files
          [S (Lfn entry), S (Pfn entry), I bid', I did', I (Bytes entry), S (Hash entry)]
          (snd (DB_Exec None sql_insert_blocks [S (Block entry)]
             (snd (DB_Exec None sql_insert_datasets [S (Dataset entry)] db))))))"
    by blast
  have "did' = did" using d' d dds by (simp add: DB_Exec_conflict(1) [OF d]) (rule unique_id)
  moreover have "bid' = bid"
    using b' b dbs by (simp add: DB_Exec_conflict(1) [OF d] DB_Exec_conflict(2) [OF b]) (rule unique_id)
  ultimately show ?thesis
    using run by (simp add: DB_Exec_conflict(1) [OF d] DB_Exec_conflict(2) [OF b] DB_Exec_conflict(3) [OF f])
qed


text \<open>
  C1. On tables that satisfy the constraints of the schema and with a database that
  reports nothing but uniqueness conflicts, two calls of \<open>Add\<close> with the same entry both
  return \<open>nil\<close>; the second call meets a uniqueness conflict at each of its three inserts
  and leaves the tables as the first call left them; and the join has exactly one row with
  the dataset, block and logical file name of the entry.
\<close>

theorem Add_twice:
  assumes ok: "schema_ok db"
  shows "\<exists>db' did bid.
     Add loaded_DBSQL no_faults db entry = Returned None db' \<and>
     Add loaded_DBSQL no_faults db' entry = Returned None db' \<and>
     schema_ok db' \<and>
     (did, Dataset entry) \<in> set (DATASETS db') \<and>
     (bid, Block entry) \<in> set (BLOCKS db') \<and>
     DB_Exec None sql_insert_datasets [S (Dataset entry)] db' =
       (Some (UNIQUE_failed ''DATASETS.DATASET''), db') \<and>
     DB_Exec None sql_insert_blocks [S (Block entry)] db' =
       (Some (UNIQUE_failed ''BLOCKS.BLOCK''), db') \<and>
     DB_Exec None sql_insert_files
         [S (Lfn entry), S (Pfn entry), I bid, I did, I (Bytes entry), S (Hash entry)] db' =
       (Some (UNIQUE_failed ''FILES.LFN, FILES.BLOCKID, FILES.DATASETID''), db') \<and>
     length (filter (\<lambda>r. Dataset r = Dataset entry \<and> Block r = Block entry \<and> Lfn r = Lfn entry)
               (files_blocks_datasets db')) = 1"
proof -
  let ?db1 = "snd (DB_Exec None sql_insert_datasets [S (Dataset entry)] db)"
  let ?db2 = "snd (DB_Exec None sql_insert_blocks [S (Block entry)] ?db1)"
  from Add_no_faults [OF ok, of entry]
  obtain did bid where d1: "(did, Dataset entry) \<in> set (DATASETS ?db1)"
    and b2: "(bid, Block entry) \<in> set (BLOCKS ?db2)"
    and run: "Add loaded_DBSQL no_faults db entry =
       Returned None (snd (DB_Exec None sql_insert_files
          [S (Lfn entry), S (Pfn entry), I bid, I did, I (Bytes entry), S (Hash entry)] ?db2))"
    by blast
  define db' where "db' = snd (DB_Exec None sql_insert_files
          [S (Lfn entry), S (Pfn entry), I bid, I did, I (Bytes entry), S (Hash entry)] ?db2)"
  have first: "Add loaded_DBSQL no_faults db entry = Returned None db'"
    using run by (simp add: db'_def)
  have ok': "schema_ok db'"
    unfolding db'_def by (intro schema_ok_DB_Exec ok)
  have d: "(did, Dataset entry) \<in> set (DATASETS db')"
    using d1 by (simp add: db'_def DB_Exec_other_tables)
  have b: "(bid, Block entry) \<in> set (BLOCKS db')"
    using b2 by (simp add: db'_def DB_Exec_other_tables)
  have f: "(Lfn entry, bid, did) \<in> file_key ` set (FILES db')"
    unfolding db'_def by (rule DB_Exec_insert_files_key)
  have second: "Add loaded_DBSQL no_faults db' entry = Returned None db'"
    using ok' d b f by (rule Add_again)
  have "length (filter (\<lambda>r. Dataset r = Dataset entry \<and> Block r = Block entry \<and> Lfn r = Lfn entry)
               (files_blocks_datasets db')) =
        length (filter (\<lambda>f. file_key f = (Lfn entry, bid, did)) (FILES db'))"
    using ok' d b by (rule reachable_rows)
  also have "\<dots> = 1"
    using ok' f by (intro count_key) (simp_all add: schema_ok_def)
  finally have one: "length (filter (\<lambda>r. Dataset r = Dataset entry \<and> Block r = Block entry \<and> Lfn r = Lfn entry)
               (files_blocks_datasets db')) = 1" .
  show ?thesis
    using first second ok' d b DB_Exec_conflict(1) [OF d] DB_Exec_conflict(2) [OF b]
      DB_Exec_conflict(3) [OF f] one
    by blast
qed

lemma Add_empty_entry1:
  "Add loaded_DBSQL no_faults empty_db entry1 =
     Returned None
       \<lparr>DATASETS = [(1, ''/a/b/RAW'')], BLOCKS = [(1, ''/a/b/RAW#1'')],
        FILES = [\<lparr>F_LFN = ''/a/f1.root'', F_PFN = ''/data/f1.root'', F_BLOCKID = 1,
                  F_DATASETID = 1, F_BYTES = 10, F_HASH = ''abc''\<rparr>]\<rparr>"
  by (simp add: Add_def Add_dataset_def Add_block_def Add_file_def getSQL_loaded no_faults_fields
        DB_Exec_insert_datasets DB_Exec_insert_blocks DB_Exec_insert_files
        DB_Query_id_datasets DB_Query_id_blocks check_def Scan_int_def
        empty_db_def entry1_def next_id_def file_key_def)

theorem Add_twice_witness:
  "schema_ok empty_db \<and>
   Add loaded_DBSQL no_faults empty_db entry1 =
     Returned None
       \<lparr>DATASETS = [(1, ''/a/b/RAW'')], BLOCKS = [(1, ''/a/b/RAW#1'')],
        FILES = [\<lparr>F_LFN = ''/a/f1.root'', F_PFN = ''/data/f1.root'', F_BLOCKID = 1,
                  F_DATASETID = 1, F_BYTES = 10, F_HASH = ''abc''\<rparr>]\<rparr> \<and>
   Add loaded_DBSQL no_faults
       \<lparr>DATASETS = [(1, ''/a/b/RAW'')], BLOCKS = [(1, ''/a/b/RAW#1'')],
        FILES = [\<lparr>F_LFN = ''/a/f1.root'', F_PFN = ''/data/f1.root'', F_BLOCKID = 1,
                  F_DATASETID = 1, F_BYTES = 10, F_HASH = ''abc''\<rparr>]\<rparr> entry1 =
     Returned None
       \<lparr>DATASETS = [(1, ''/a/b/RAW'')], BLOCKS = [(1, ''/a/b/RAW#1'')],
        FILES = [\<lparr>F_LFN = ''/a/f1.root'', F_PFN = ''/data/f1.root'', F_BLOCKID = 1,
                  F_DATASETID = 1, F_BYTES = 10, F_HASH = ''abc''\<rparr>]\<rparr> \<and>
   length (filter (\<lambda>r. Dataset r = Dataset entry1 \<and> Block r = Block entry1 \<and> Lfn r = Lfn entry1)
     (files_blocks_datasets
       \<lparr>DATASETS = [(1, ''/a/b/RAW'')], BLOCKS = [(1, ''/a/b/RAW#1'')],
        FILES = [\<lparr>F_LFN = ''/a/f1.root'', F_PFN = ''/data/f1.root'', F_BLOCKID = 1,
                  F_DATASETID = 1, F_BYTES = 10, F_HASH = ''abc''\<rparr>]\<rparr>)) = 1"
proof -
  from Add_twice [OF schema_ok_empty, of entry1]
  obtain db' where first: "Add loaded_DBSQL no_faults empty_db entry1 = Returned None db'"
    and second: "Add loaded_DBSQL no_faults db' entry1 = Returned None db'"
    and one: "length (filter (\<lambda>r. Dataset r = Dataset entry1 \<and> Block r = Block entry1 \<and> Lfn r = Lfn entry1)
               (files_blocks_datasets db')) = 1"
    by blast
  from first have "db' =
       \<lparr>DATASETS = [(1, ''/a/b/RAW'')], BLOCKS = [(1, ''/a/b/RAW#1'')],
        FILES = [\<lparr>F_LFN = ''/a/f1.root'', F_PFN = ''/data/f1.root'', F_BLOCKID = 1,
                  F_DATASETID = 1, F_BYTES = 10, F_HASH = ''abc''\<rparr>]\<rparr>"
    by (simp add: Add_empty_entry1)
  with second one show ?thesis
    by (simp add: schema_ok_empty Add_empty_entry1)
qed

text \<open>
  C2. \<open>Add\<close> is meant to be atomic: every step inside the transaction opened at its
  start, and the tables unchanged when a step fails. The source opens the transaction but
  sends every statement through \<open>DB\<close>. On the empty tables, with an insert into BLOCKS
  that fails for a reason other than a uniqueness conflict, \<open>Add\<close> ends the process and
  the row inserted into DATASETS before stays.
\<close>

theorem Add_block_failure_keeps_dataset:
  "Add loaded_DBSQL (no_faults\<lparr>insert_blocks_fault := Some ''disk I/O error''\<rparr>) empty_db entry1 =
     Fatal (''ERROR Unable to insert into blocks table, disk I/O error'' @ [CHR 0x0A])
       \<lparr>DATASETS = [(1, ''/a/b/RAW'')], BLOCKS = [], FILES = []\<rparr>"
  by (simp add: Add_def Add_dataset_def Add_block_def getSQL_loaded no_faults_def
        DB_Exec_insert_datasets DB_Query_id_datasets check_def Scan_int_def
        empty_db_def entry1_def next_id_def)

text \<open>
  C3. A failure of the insert into FILES other than a uniqueness conflict is meant to be
  fatal. The source tests \<open>e\<close>, the error of the insert into BLOCKS, where the error of
  the insert into FILES is in \<open>err\<close>: on the empty tables, with an insert into FILES
  that fails with a disk error, \<open>Add\<close> returns \<open>nil\<close> and no file row exists.
\<close>

theorem Add_ignores_file_insert_failure:
  "Add loaded_DBSQL (no_faults\<lparr>insert_files_fault := Some ''disk I/O error''\<rparr>) empty_db entry1 =
     Returned None
       \<lparr>DATASETS = [(1, ''/a/b/RAW'')], BLOCKS = [(1, ''/a/b/RAW#1'')], FILES = []\<rparr>"
  by (simp add: Add_def Add_dataset_def Add_block_def Add_file_def getSQL_loaded no_faults_def
        DB_Exec_insert_datasets DB_Exec_insert_blocks
        DB_Query_id_datasets DB_Query_id_blocks check_def Scan_int_def
        empty_db_def entry1_def next_id_def)

lemma placeholder_cases:
  "(\<forall>p. placeholder t p = CHR '':'' # p) \<or> (\<forall>p. placeholder t p = CHR ''$'' # p) \<or>
   (\<forall>p. placeholder t p = ''?'')"
  by (simp add: placeholder_def)

lemma DB_Query_select:
  "DB_Query None (sql_files_blocks_datasets @ rest) args db =
     (case where_clause rest of
        None \<Rightarrow> ([], Some ''syntax error'')
      | Some cols \<Rightarrow>
          if length cols \<noteq> length args then ([], Some ''sql: wrong arguments'')
          else (map row_of_entry
                 (filter (\<lambda>e. list_all2 (\<lambda>c v. c e = v) cols args) (files_blocks_datasets db)),
                None))"
proof -
  have ne: "sql_files_blocks_datasets @ rest \<noteq> sql_id_datasets"
    "sql_files_blocks_datasets @ rest \<noteq> sql_id_blocks"
    by (simp_all add: sql_files_blocks_datasets_def sql_id_datasets_def sql_id_blocks_def)
  show ?thesis by (simp add: DB_Query_def ne)
qed

lemma Scan_entry_row_of_entry:
  "Scan_entry (row_of_entry e) \<lparr>Lfn = [], Pfn = [], Dataset = [], Block = [], Bytes = 0, Hash = []\<rparr> = (None, e)"
  by (cases e) (simp add: Scan_entry_def row_of_entry_def)

lemma scan_entries_rows: "scan_entries (map row_of_entry es) out = append_all out es"
  by (induction es arbitrary: out) (simp_all add: Scan_entry_row_of_entry append_all_def)

lemma elems_append_all: "elems (append_all s xs) = elems s @ xs"
proof (induction xs arbitrary: s)
  case Nil
  show ?case by (simp add: append_all_def)
next
  case (Cons x xs)
  have "elems (append_slice s x) = elems s @ [x]" by (cases s) simp_all
  then show ?case using Cons.IH [of "append_slice s x"] by (simp add: append_all_def)
qed

lemma append_all_Nil_slice:
  "append_all Nil_slice xs = (if xs = [] then Nil_slice else Slice xs)"
proof (cases xs)
  case Nil
  then show ?thesis by (simp add: append_all_def)
next
  case (Cons x ys)
  have "append_all (Slice zs) ws = Slice (zs @ ws)" for zs ws :: "'a list"
    by (induction ws arbitrary: zs) (simp_all add: append_all_def)
  then have "append_all (Slice [x]) ys = Slice (x # ys)" by simp
  then show ?thesis using Cons by (simp add: append_all_def)
qed

lemma where_clause_empty: "where_clause [] = Some []"
  by (simp add: where_clause_def)


lemma DB_Query_select_all:
  "DB_Query None sql_files_blocks_datasets [] db = (map row_of_entry (files_blocks_datasets db), None)"
  using DB_Query_select [of "[]" "[]" db] by (simp add: where_clause_empty)

lemma Records_built:
  assumes ph: "(\<forall>p. placeholder t p = CHR '':'' # p) \<or> (\<forall>p. placeholder t p = CHR ''$'' # p) \<or>
   (\<forall>p. placeholder t p = ''?'')"
  shows "Records t loaded_DBSQL None db req =
     Returned (append_all Nil_slice
       (filter (\<lambda>e. (File req \<noteq> [] \<longrightarrow> Lfn e = File req) \<and>
                           (TransferRequest.Block req \<noteq> [] \<longrightarrow> Block e = TransferRequest.Block req) \<and>
                           (TransferRequest.Dataset req \<noteq> [] \<longrightarrow> Dataset e = TransferRequest.Dataset req))
                 (files_blocks_datasets db))) db"
  using ph
proof (elim disjE)
  assume p: "\<forall>p. placeholder t p = CHR '':'' # p"
  show ?thesis
    by (cases "File req = []"; cases "TransferRequest.Block req = []";
        cases "TransferRequest.Dataset req = []")
       (simp_all add: Records_def getSQL_loaded p DB_Query_select DB_Query_select_all
          where_clause_def column_def scan_entries_rows)
next
  assume p: "\<forall>p. placeholder t p = CHR ''$'' # p"
  show ?thesis
    by (cases "File req = []"; cases "TransferRequest.Block req = []";
        cases "TransferRequest.Dataset req = []")
       (simp_all add: Records_def getSQL_loaded p DB_Query_select DB_Query_select_all
          where_clause_def column_def scan_entries_rows)
next
  assume p: "\<forall>p. placeholder t p = ''?''"
  show ?thesis
    by (cases "File req = []"; cases "TransferRequest.Block req = []";
        cases "TransferRequest.Dataset req = []")
       (simp_all add: Records_def getSQL_loaded p DB_Query_select DB_Query_select_all
          where_clause_def column_def scan_entries_rows)
qed


lemma Records_fault: "Records t loaded_DBSQL (Some err) db req = Returned (Slice []) db"
  by (simp add: Records_def getSQL_loaded Let_def split: prod.splits)

lemma files_blocks_datasets_two_files: "files_blocks_datasets two_files_db = [entry1, entry2]"
  by (simp add: files_blocks_datasets_def two_files_db_def entry1_def entry2_def)

text \<open>
  C4. With a query that does not fail, \<open>Records\<close> returns the rows of the join whose
  logical file name, block and dataset equal each non-empty field of the request, in the
  order of the join, and no other row: whatever the dialect, and for each of the eight
  combinations of empty and non-empty fields. When the three fields are empty it returns
  every row. The slice it returns is the nil slice with these rows appended, so its elements
  are exactly these rows.
\<close>

theorem Records_filter:
  "Records DBTYPE loaded_DBSQL None db req =
     Returned (append_all Nil_slice
       (filter (\<lambda>e. (File req \<noteq> [] \<longrightarrow> Lfn e = File req) \<and>
                     (TransferRequest.Block req \<noteq> [] \<longrightarrow> Block e = TransferRequest.Block req) \<and>
                     (TransferRequest.Dataset req \<noteq> [] \<longrightarrow> Dataset e = TransferRequest.Dataset req))
          (files_blocks_datasets db))) db \<and>
   elems (append_all Nil_slice
       (filter (\<lambda>e. (File req \<noteq> [] \<longrightarrow> Lfn e = File req) \<and>
                     (TransferRequest.Block req \<noteq> [] \<longrightarrow> Block e = TransferRequest.Block req) \<and>
                     (TransferRequest.Dataset req \<noteq> [] \<longrightarrow> Dataset e = TransferRequest.Dataset req))
          (files_blocks_datasets db))) =
     filter (\<lambda>e. (File req \<noteq> [] \<longrightarrow> Lfn e = File req) \<and>
                   (TransferRequest.Block req \<noteq> [] \<longrightarrow> Block e = TransferRequest.Block req) \<and>
                   (TransferRequest.Dataset req \<noteq> [] \<longrightarrow> Dataset e = TransferRequest.Dataset req))
        (files_blocks_datasets db) \<and>
   (File req = [] \<and> TransferRequest.Block req = [] \<and> TransferRequest.Dataset req = [] \<longrightarrow>
      Records DBTYPE loaded_DBSQL None db req =
        Returned (append_all Nil_slice (files_blocks_datasets db)) db \<and>
      elems (append_all Nil_slice (files_blocks_datasets db)) = files_blocks_datasets db)"
  by (simp add: Records_built [OF placeholder_cases] elems_append_all)

theorem Records_filter_witness:
  "Records ''sqlite3'' loaded_DBSQL None two_files_db
      \<lparr>File = [], TransferRequest.Block = ''/a/b/RAW#2'', TransferRequest.Dataset = ''/a/b/RAW''\<rparr> =
     Returned (Slice [entry2]) two_files_db \<and>
   Records ''ora'' loaded_DBSQL None two_files_db
      \<lparr>File = ''/a/f1.root'', TransferRequest.Block = [], TransferRequest.Dataset = []\<rparr> =
     Returned (Slice [entry1]) two_files_db \<and>
   Records ''oci8'' loaded_DBSQL None two_files_db
      \<lparr>File = [], TransferRequest.Block = [], TransferRequest.Dataset = []\<rparr> =
     Returned (Slice [entry1, entry2]) two_files_db"
  using Records_filter [of "''sqlite3''" two_files_db
      "\<lparr>File = [], TransferRequest.Block = ''/a/b/RAW#2'', TransferRequest.Dataset = ''/a/b/RAW''\<rparr>"]
    Records_filter [of "''ora''" two_files_db
      "\<lparr>File = ''/a/f1.root'', TransferRequest.Block = [], TransferRequest.Dataset = []\<rparr>"]
    Records_filter [of "''oci8''" two_files_db
      "\<lparr>File = [], TransferRequest.Block = [], TransferRequest.Dataset = []\<rparr>"]
  by (simp add: files_blocks_datasets_two_files entry1_def entry2_def append_all_def)

text \<open>
  C5, as the claim states it: a failed query and a request that no row matches are
  indistinguishable to the caller. On the tables with two files and a request for a file
  that is not there, the failed query gives the empty slice that is not nil and the query
  without a match gives the nil slice: the two results differ, and \<open>is_nil\<close> tells them
  apart.
\<close>

theorem Records_failure_differs_from_no_match:
  "Records ''sqlite3'' loaded_DBSQL (Some ''database is locked'') two_files_db
      \<lparr>File = ''/a/f3.root'', TransferRequest.Block = [], TransferRequest.Dataset = []\<rparr> =
     Returned (Slice []) two_files_db \<and>
   Records ''sqlite3'' loaded_DBSQL None two_files_db
      \<lparr>File = ''/a/f3.root'', TransferRequest.Block = [], TransferRequest.Dataset = []\<rparr> =
     Returned Nil_slice two_files_db \<and>
   Records ''sqlite3'' loaded_DBSQL (Some ''database is locked'') two_files_db
      \<lparr>File = ''/a/f3.root'', TransferRequest.Block = [], TransferRequest.Dataset = []\<rparr> \<noteq>
   Records ''sqlite3'' loaded_DBSQL None two_files_db
      \<lparr>File = ''/a/f3.root'', TransferRequest.Block = [], TransferRequest.Dataset = []\<rparr> \<and>
   \<not> is_nil (Slice ([] :: CatalogEntry list)) \<and> is_nil (Nil_slice :: CatalogEntry slice)"
  by (simp add: Records_built [OF placeholder_cases] Records_fault
        files_blocks_datasets_two_files entry1_def entry2_def append_all_def)

text \<open>
  C5, amended. \<open>Records\<close> gives its caller no error: its result is a slice of entries
  and, with the templates loaded, it always returns. When the query fails it returns the
  empty slice that is not nil, and when no row matches the request it returns the nil
  slice. Both have no element, so a caller that takes the length or ranges over the result
  sees the same in both situations; a comparison with nil tells them apart.
\<close>

theorem Records_no_error:
  "Records DBTYPE loaded_DBSQL (Some err) db req = Returned (Slice []) db \<and>
   ((\<forall>e \<in> set (files_blocks_datasets db).
        \<not> ((File req \<noteq> [] \<longrightarrow> Lfn e = File req) \<and>
           (TransferRequest.Block req \<noteq> [] \<longrightarrow> Block e = TransferRequest.Block req) \<and>
           (TransferRequest.Dataset req \<noteq> [] \<longrightarrow> Dataset e = TransferRequest.Dataset req))) \<longrightarrow>
      Records DBTYPE loaded_DBSQL None db req = Returned Nil_slice db) \<and>
   elems (Slice ([] :: CatalogEntry list)) = elems (Nil_slice :: CatalogEntry slice) \<and>
   is_nil (Slice ([] :: CatalogEntry list)) \<noteq> is_nil (Nil_slice :: CatalogEntry slice) \<and>
   (\<exists>out. Records DBTYPE loaded_DBSQL fault db req = Returned out db)"
proof (intro conjI impI)
  show "Records DBTYPE loaded_DBSQL (Some err) db req = Returned (Slice []) db"
    by (rule Records_fault)
next
  assume "\<forall>e \<in> set (files_blocks_datasets db).
        \<not> ((File req \<noteq> [] \<longrightarrow> Lfn e = File req) \<and>
           (TransferRequest.Block req \<noteq> [] \<longrightarrow> Block e = TransferRequest.Block req) \<and>
           (TransferRequest.Dataset req \<noteq> [] \<longrightarrow> Dataset e = TransferRequest.Dataset req))"
  then have "filter (\<lambda>e. (File req \<noteq> [] \<longrightarrow> Lfn e = File req) \<and>
           (TransferRequest.Block req \<noteq> [] \<longrightarrow> Block e = TransferRequest.Block req) \<and>
           (TransferRequest.Dataset req \<noteq> [] \<longrightarrow> Dataset e = TransferRequest.Dataset req))
        (files_blocks_datasets db) = []"
    by (simp add: filter_empty_conv)
  then show "Records DBTYPE loaded_DBSQL None db req = Returned Nil_slice db"
    by (simp add: Records_built [OF placeholder_cases] append_all_def)
next
  show "elems (Slice ([] :: CatalogEntry list)) = elems (Nil_slice :: CatalogEntry slice)"
    by simp
next
  show "is_nil (Slice ([] :: CatalogEntry list)) \<noteq> is_nil (Nil_slice :: CatalogEntry slice)"
    by simp
next
  show "\<exists>out. Records DBTYPE loaded_DBSQL fault db req = Returned out db"
    by (cases fault) (simp_all add: Records_built [OF placeholder_cases] Records_fault)
qed

theorem Records_no_error_witness:
  "Records ''sqlite3'' loaded_DBSQL (Some ''database is locked'') two_files_db
      \<lparr>File = ''/a/f1.root'', TransferRequest.Block = [], TransferRequest.Dataset = []\<rparr> =
     Returned (Slice []) two_files_db \<and>
   files_blocks_datasets two_files_db = [entry1, entry2] \<and>
   Lfn entry1 \<noteq> ''/a/f3.root'' \<and> Lfn entry2 \<noteq> ''/a/f3.root'' \<and>
   Records ''sqlite3'' loaded_DBSQL None two_files_db
      \<lparr>File = ''/a/f3.root'', TransferRequest.Block = [], TransferRequest.Dataset = []\<rparr> =
     Returned Nil_slice two_files_db"
  using Records_no_error [of "''sqlite3''" "''database is locked''" two_files_db
      "\<lparr>File = ''/a/f1.root'', TransferRequest.Block = [], TransferRequest.Dataset = []\<rparr>" None]
    Records_no_error [of "''sqlite3''" "''database is locked''" two_files_db
      "\<lparr>File = ''/a/f3.root'', TransferRequest.Block = [], TransferRequest.Dataset = []\<rparr>" None]
  by (simp add: files_blocks_datasets_two_files entry1_def entry2_def)

text \<open>
  C9. For every placeholder name \<open>p\<close>, \<open>placeholder\<close> returns \<open>:p\<close> when the
  configured dialect is \<open>ora\<close> or \<open>oci8\<close>, \<open>$p\<close> when it is \<open>PostgreSQL\<close>, and
  the positional \<open>?\<close> for every other dialect.
\<close>

theorem placeholder_by_dialect:
  "placeholder ''ora'' p = CHR '':'' # p \<and>
   placeholder ''oci8'' p = CHR '':'' # p \<and>
   placeholder ''PostgreSQL'' p = CHR ''$'' # p \<and>
   (\<forall>t. t \<noteq> ''ora'' \<and> t \<noteq> ''oci8'' \<and> t \<noteq> ''PostgreSQL'' \<longrightarrow> placeholder t p = ''?'')"
  by (simp add: placeholder_def)

theorem placeholder_by_dialect_witness:
  "placeholder ''ora'' ''lfn'' = '':lfn'' \<and>
   placeholder ''oci8'' ''lfn'' = '':lfn'' \<and>
   placeholder ''PostgreSQL'' ''lfn'' = ''$lfn'' \<and>
   ''sqlite3'' \<noteq> ''ora'' \<and> ''sqlite3'' \<noteq> ''oci8'' \<and> ''sqlite3'' \<noteq> ''PostgreSQL'' \<and>
   placeholder ''sqlite3'' ''lfn'' = ''?''"
  using placeholder_by_dialect [of "''lfn''"] by simp

subsection \<open>Hashing\<close>

lemma sixteen:
  "(d::nat) < 16 \<Longrightarrow> d = 0 \<or> d = 1 \<or> d = 2 \<or> d = 3 \<or> d = 4 \<or> d = 5 \<or> d = 6 \<or> d = 7 \<or>
     d = 8 \<or> d = 9 \<or> d = 10 \<or> d = 11 \<or> d = 12 \<or> d = 13 \<or> d = 14 \<or> d = 15"
  by presburger

lemma hextable_digit: "d < 16 \<Longrightarrow> hextable ! d = hex_digit d"
  by (drule sixteen) (auto simp: hextable_def hex_digit_def)

lemma high_nibble: "unat (drop_bit 4 (v :: byte)) = unat v div 16"
  by (simp add: drop_bit_eq_div unat_div)

lemma low_nibble: "unat ((v :: byte) AND 0x0f) = unat v mod 16"
proof -
  have "(v AND 0x0f) = take_bit 4 v" by (simp only: take_bit_eq_mask mask_eq_exp_minus_1) simp
  then have "unat (v AND 0x0f) = take_bit 4 (unat v)" by (simp only: unsigned_take_bit_eq)
  then show ?thesis by (simp only: take_bit_eq_mod) simp
qed

lemma byte_div_16: "unat (v :: byte) div 16 < 16"
proof -
  have "unat v < 2 ^ 8" using unsigned_less [of v, where 'a = nat] by simp
  then show ?thesis by simp
qed

lemma EncodeToString_lower_hex: "EncodeToString bs = lower_hex bs"
  by (induction bs) (simp_all add: lower_hex_def high_nibble low_nibble hextable_digit byte_div_16)

lemma length_Sum256: "length (Sum256 data) = 32"
  by (simp add: Sum256_def bytes_of_def split: prod.splits)

lemma length_lower_hex: "length (lower_hex bs) = 2 * length bs"
  by (induction bs) (simp_all add: lower_hex_def)

lemma hex_digit_in_table: "d < 16 \<Longrightarrow> hex_digit d \<in> set ''0123456789abcdef''"
  using hextable_digit [of d] nth_mem [of d hextable] by (simp add: hextable_def)

lemma lower_hex_alphabet: "set (lower_hex bs) \<subseteq> set ''0123456789abcdef''"
proof (induction bs)
  case Nil
  show ?case by (simp add: lower_hex_def)
next
  case (Cons b bs)
  have "hex_digit (unat b div 16) \<in> set ''0123456789abcdef''"
    by (rule hex_digit_in_table) (rule byte_div_16)
  moreover have "hex_digit (unat b mod 16) \<in> set ''0123456789abcdef''"
    by (rule hex_digit_in_table) simp
  ultimately show ?case using Cons.IH by (simp add: lower_hex_def)
qed

text \<open>
  The model of the digest on the three bytes \<open>abc\<close>, the first example of the standard.
\<close>

lemma utils_Hash_abc:
  "utils_Hash [0x61, 0x62, 0x63] =
     (''ba7816bf8f01cfea414140de5dae2223b00361a396177a9cb410ff61f20015ad'', 3)"
  by code_simp

text \<open>
  C10. For every byte sequence, \<open>Hash\<close> returns the lowercase hexadecimal encoding of
  the SHA-256 digest of the bytes, which has 64 characters out of \<open>0\<close> to \<open>9\<close> and \<open>a\<close>
  to \<open>f\<close>, together with the number of bytes.
\<close>

theorem Hash_sha256_hex:
  "utils_Hash data = (lower_hex (Sum256 data), int (length data)) \<and>
   length (fst (utils_Hash data)) = 64 \<and>
   set (fst (utils_Hash data)) \<subseteq> set ''0123456789abcdef''"
proof -
  have h: "utils_Hash data = (lower_hex (Sum256 data), int (length data))"
    by (simp add: utils_Hash_def sha256_New_def Write_def Sum_def EncodeToString_lower_hex)
  show ?thesis
    using lower_hex_alphabet [of "Sum256 data"]
    by (simp add: h length_lower_hex length_Sum256)
qed

theorem Hash_sha256_hex_witness:
  "lower_hex (Sum256 [0x61, 0x62, 0x63]) =
     ''ba7816bf8f01cfea414140de5dae2223b00361a396177a9cb410ff61f20015ad'' \<and>
   snd (utils_Hash [0x61, 0x62, 0x63]) = 3"
  using Hash_sha256_hex [of "[0x61, 0x62, 0x63]"] utils_Hash_abc by simp

end
